theory Spec2Isabelle
  imports Complex_Main
begin

section \<open>Numbers\<close>

text \<open>
  The program is TypeScript over three.js; all its numbers are IEEE 754 binary64 values
  (doubles). Two models are used.

  The motion functions and the traffic-signal timer add, multiply and compare stored
  coordinates and timers, and a comparison there can go one way on the exact sum and the
  other way on the double that is stored. These values are of type \<open>number\<close>, defined
  below, and every operation rounds as the machine does.

  Loop counters, the number of grid divisions and the traffic-light phase only ever hold
  small non-negative integers and are \<open>nat\<close>. The layout coordinates, the light
  intensities, the colour channels and the sun angle and height of the day/night function
  are \<open>real\<close>: there arithmetic is exact and rounding is not modelled.
\<close>

subsection \<open>Rounding to a double\<close>

text \<open>
  Rounding of a real number to the nearest integer, ties going to the even one.
\<close>

definition roundEven :: "real \<Rightarrow> int" where
  "roundEven y =
     (let f = \<lfloor>y\<rfloor>; d = y - of_int f
      in if d < 1 / 2 then f else if d > 1 / 2 then f + 1 else if even f then f else f + 1)"

text \<open>
  The power of two at the bottom of the binade of a magnitude: \<open>binade_up n r\<close> halves
  \<open>r \<ge> 1\<close> until it is below 2, at most \<open>n\<close> times; \<open>binade_down n r\<close> doubles
  \<open>r < 1\<close> until it reaches 1, at most \<open>n\<close> times. With 1024 and 1022 steps,
  \<open>binade r\<close> is the power of two \<open>2^e\<close> with \<open>2^e \<le> \<bar>r\<bar> < 2^(e+1)\<close> for the normal
  range \<open>-1022 \<le> e \<le> 1023\<close>; below it (subnormal numbers and zero) it is \<open>2^-1022\<close>,
  above it \<open>2^1024\<close>.
\<close>

fun binade_up :: "nat \<Rightarrow> real \<Rightarrow> real" where
  "binade_up 0 r = 1"
| "binade_up (Suc n) r = (if r < 2 then 1 else 2 * binade_up n (r / 2))"

fun binade_down :: "nat \<Rightarrow> real \<Rightarrow> real" where
  "binade_down 0 r = 1"
| "binade_down (Suc n) r = (if 1 \<le> r then 1 else binade_down n (r * 2) / 2)"

definition binade :: "real \<Rightarrow> real" where
  "binade r = (if 1 \<le> \<bar>r\<bar> then binade_up 1024 \<bar>r\<bar> else binade_down 1022 \<bar>r\<bar>)"

text \<open>
  The spacing of the doubles in the binade of \<open>r\<close> (53 significant bits), and the
  double nearest to \<open>r\<close>, ties to even, before any overflow.
\<close>

definition ulp :: "real \<Rightarrow> real" where
  "ulp r = binade r / 2 ^ 52"

definition fl :: "real \<Rightarrow> real" where
  "fl r = (if r < 0 then - (ulp r * of_int (roundEven (- r / ulp r)))
           else ulp r * of_int (roundEven (r / ulp r)))"


subsection \<open>The values and operations of the type \<open>number\<close>\<close>

text \<open>
  A number is a finite double \<open>Num x\<close>, one of the two infinities, or NaN. The two zeros
  are one value \<open>Num 0\<close>: the functions modelled here never divide by a stored value, so
  the sign of a zero cannot be observed. A numeric literal such as \<open>0.01\<close> denotes the
  double nearest to it, \<open>Num (fl (1 / 100))\<close>; \<open>0\<close>, \<open>1\<close>, \<open>2\<close> and \<open>5\<close> are doubles.
\<close>

datatype number = Num real | PInf | NInf | NaN

text \<open>
  The result of an operation whose exact value is \<open>r\<close>: the nearest double, or an
  infinity when that lies beyond the largest finite double.
\<close>

definition rnd :: "real \<Rightarrow> number" where
  "rnd r =
     (let q = fl r
      in if 2 ^ 1024 \<le> q then PInf else if q \<le> - (2 ^ 1024) then NInf else Num q)"

text \<open>\<open>a + b\<close>\<close>

fun jadd :: "number \<Rightarrow> number \<Rightarrow> number" where
  "jadd NaN _ = NaN"
| "jadd _ NaN = NaN"
| "jadd PInf NInf = NaN"
| "jadd NInf PInf = NaN"
| "jadd PInf _ = PInf"
| "jadd _ PInf = PInf"
| "jadd NInf _ = NInf"
| "jadd _ NInf = NInf"
| "jadd (Num a) (Num b) = rnd (a + b)"


text \<open>\<open>- a\<close>\<close>

fun jneg :: "number \<Rightarrow> number" where
  "jneg NaN = NaN"
| "jneg PInf = NInf"
| "jneg NInf = PInf"
| "jneg (Num a) = Num (- a)"

text \<open>\<open>a - b\<close>, which is \<open>a + (- b)\<close> in IEEE arithmetic.\<close>

definition jsub :: "number \<Rightarrow> number \<Rightarrow> number" where
  "jsub a b = jadd a (jneg b)"

text \<open>\<open>a / 2\<close>, the only division the modelled functions make.\<close>

fun jhalf :: "number \<Rightarrow> number" where
  "jhalf NaN = NaN"
| "jhalf PInf = PInf"
| "jhalf NInf = NInf"
| "jhalf (Num a) = rnd (a / 2)"

text \<open>\<open>a > b\<close>, \<open>a < b\<close> and \<open>a <= b\<close>: false whenever an operand is NaN.\<close>

fun jgt :: "number \<Rightarrow> number \<Rightarrow> bool" where
  "jgt NaN _ = False"
| "jgt _ NaN = False"
| "jgt _ PInf = False"
| "jgt PInf _ = True"
| "jgt NInf _ = False"
| "jgt _ NInf = True"
| "jgt (Num a) (Num b) = (b < a)"



section \<open>Layout: \<open>createBuildings\<close> and \<open>createRoads\<close>\<close>

text \<open>
  The guard of the inner loop of \<open>createBuildings\<close>:
  \<^verbatim>\<open>if (i % 3 === 1 || j % 3 === 1) continue;\<close>
\<close>

definition isRoadCell :: "nat \<Rightarrow> nat \<Rightarrow> bool" where
  "isRoadCell i j = (i mod 3 = 1 \<or> j mod 3 = 1)"

text \<open>
  \<^verbatim>\<open>let buildingType = "skyscraper";
  if ((i + j) % 5 === 0) buildingType = "apartment";
  if ((i + j) % 7 === 0) buildingType = "shop";\<close>
  Two independent assignments, one after the other.
\<close>

definition buildingType :: "nat \<Rightarrow> nat \<Rightarrow> string" where
  "buildingType i j =
     (let t0 = ''skyscraper'';
          t1 = (if (i + j) mod 5 = 0 then ''apartment'' else t0);
          t2 = (if (i + j) mod 7 = 0 then ''shop'' else t1)
      in t2)"

text \<open>
  One call \<open>createBuildingByType(buildingType, x, z)\<close>; the mesh it returns has a random
  height and colour, which no property below depends on, so a building is recorded as the
  arguments of that call together with the cell it was made for.
\<close>

record building =
  cell_i :: nat
  cell_j :: nat
  b_type :: string
  b_x :: real
  b_z :: real

text \<open>The nested loops of \<open>createBuildings\<close>, in iteration order.\<close>

definition createBuildings :: "real \<Rightarrow> nat \<Rightarrow> building list" where
  "createBuildings gridSize gridDivisions =
     (let blockSize = gridSize / real gridDivisions;
          centerOffset = gridSize / 2
      in concat (map (\<lambda>i. concat (map (\<lambda>j.
           if isRoadCell i j then []
           else [\<lparr> cell_i = i, cell_j = j, b_type = buildingType i j,
                   b_x = real i * blockSize - centerOffset + blockSize / 2,
                   b_z = real j * blockSize - centerOffset + blockSize / 2 \<rparr>])
           [0..<gridDivisions])) [0..<gridDivisions]))"

text \<open>
  A road strip of \<open>createRoads\<close>: the loop index it was made for, its orientation and
  the position of its plane.
\<close>

record road_strip =
  strip_index :: nat
  horizontal :: bool
  strip_x :: real
  strip_y :: real
  strip_z :: real

text \<open>
  The outer loop of \<open>createRoads\<close> with its guard \<^verbatim>\<open>if (i % 3 !== 1) continue;\<close>:
  each remaining index pushes a horizontal strip, then a vertical one.
\<close>

definition createRoads_roads :: "real \<Rightarrow> nat \<Rightarrow> road_strip list" where
  "createRoads_roads gridSize gridDivisions =
     (let blockSize = gridSize / real gridDivisions;
          centerOffset = gridSize / 2
      in concat (map (\<lambda>i.
           if i mod 3 \<noteq> 1 then []
           else [\<lparr> strip_index = i, horizontal = True, strip_x = 0, strip_y = 0.01,
                    strip_z = real i * blockSize - centerOffset + blockSize / 2 \<rparr>,
                 \<lparr> strip_index = i, horizontal = False,
                    strip_x = real i * blockSize - centerOffset + blockSize / 2,
                    strip_y = 0.01, strip_z = 0 \<rparr>])
           [0..<gridDivisions]))"

section \<open>Motion: \<open>updateCars\<close> and \<open>updatePedestrians\<close>\<close>













section \<open>Traffic signals: \<open>updateTrafficLights\<close>\<close>

text \<open>
  \<open>createTrafficLight\<close> gives each signal three light meshes, each with a material of
  its own; \<open>lights\<close> holds the \<open>emissiveIntensity\<close> of the materials reached as
  \<open>mesh.userData.lights.red.material\<close>, \<open>...yellow.material\<close> and \<open>...green.material\<close>.
\<close>

record lights =
  red :: real
  yellow :: real
  green :: real

text \<open>
  An entry of the \<open>trafficLights\<close> array. \<open>state\<close> is created as
  \<open>Math.floor(Math.random() * 3)\<close> and only ever assigned \<open>(state + 1) % 3\<close>.
\<close>

record trafficLight =
  lights :: lights
  state :: nat
  timer :: number

text \<open>
  The first half of the callback:
  \<^verbatim>\<open>trafficLight.timer += 0.01;
  if (trafficLight.timer > 5) {
    trafficLight.state = (trafficLight.state + 1) % 3;
    trafficLight.timer = 0;
  }\<close>
  The rounded sum is stored, and the test reads the stored timer.
\<close>

definition updateTimer :: "trafficLight \<Rightarrow> trafficLight" where
  "updateTimer trafficLight =
     (let trafficLight = trafficLight\<lparr>timer := jadd (timer trafficLight) (Num (fl (1 / 100)))\<rparr>
      in if jgt (timer trafficLight) (Num 5)
         then trafficLight\<lparr>state := (state trafficLight + 1) mod 3, timer := Num 0\<rparr>
         else trafficLight)"

text \<open>
  The second half: all three intensities are set to 0, then the \<open>switch\<close> on \<open>state\<close>
  sets one of them to 1; a state other than 0, 1 or 2 matches no \<open>case\<close>.
\<close>

definition updateLightColors :: "trafficLight \<Rightarrow> trafficLight" where
  "updateLightColors trafficLight =
     (let trafficLight = trafficLight\<lparr>lights := (lights trafficLight)\<lparr>red := 0\<rparr>\<rparr>;
          trafficLight = trafficLight\<lparr>lights := (lights trafficLight)\<lparr>yellow := 0\<rparr>\<rparr>;
          trafficLight = trafficLight\<lparr>lights := (lights trafficLight)\<lparr>green := 0\<rparr>\<rparr>
      in if state trafficLight = 0
         then trafficLight\<lparr>lights := (lights trafficLight)\<lparr>red := 1\<rparr>\<rparr>
         else if state trafficLight = 1
         then trafficLight\<lparr>lights := (lights trafficLight)\<lparr>yellow := 1\<rparr>\<rparr>
         else if state trafficLight = 2
         then trafficLight\<lparr>lights := (lights trafficLight)\<lparr>green := 1\<rparr>\<rparr>
         else trafficLight)"

definition updateTrafficLight :: "trafficLight \<Rightarrow> trafficLight" where
  "updateTrafficLight trafficLight = updateLightColors (updateTimer trafficLight)"

text \<open>The parameter \<open>time\<close> is received and not used.\<close>

definition updateTrafficLights :: "trafficLight list \<Rightarrow> real \<Rightarrow> trafficLight list" where
  "updateTrafficLights trafficLights time = map updateTrafficLight trafficLights"

text \<open>
  The timer through \<open>n\<close> updates during which the test \<open>timer > 5\<close> never holds:
  \<open>Some\<close> of the timer reached, or \<open>None\<close> when one of the \<open>n\<close> updates changes the state.
\<close>

fun noFlips :: "nat \<Rightarrow> number \<Rightarrow> number option" where
  "noFlips 0 t = Some t"
| "noFlips (Suc n) t =
     (let t' = jadd t (Num (fl (1 / 100)))
      in if jgt t' (Num 5) then None else noFlips n t')"

section \<open>Day and night: \<open>updateDayNightCycle\<close>\<close>

subsection \<open>Colours\<close>

text \<open>
  \<open>THREE.Color\<close> belongs to three.js, not to this program. It is modelled as its three
  channels; \<open>new THREE.Color(hex)\<close> gives each channel the corresponding byte of \<open>hex\<close>
  divided by 255, \<open>lerpColors(c1, c2, alpha)\<close> blends each channel linearly as
  \<open>c1 + (c2 - c1) * alpha\<close>, and \<open>equals\<close> compares the three channels.
\<close>

record color =
  col_r :: real
  col_g :: real
  col_b :: real

definition Color :: "nat \<Rightarrow> color" where
  "Color hex =
     \<lparr> col_r = real (hex div 65536 mod 256) / 255,
       col_g = real (hex div 256 mod 256) / 255,
       col_b = real (hex mod 256) / 255 \<rparr>"

definition lerpColors :: "color \<Rightarrow> color \<Rightarrow> real \<Rightarrow> color" where
  "lerpColors c1 c2 alpha =
     \<lparr> col_r = col_r c1 + (col_r c2 - col_r c1) * alpha,
       col_g = col_g c1 + (col_g c2 - col_g c1) * alpha,
       col_b = col_b c1 + (col_b c2 - col_b c1) * alpha \<rparr>"

text \<open>The table \<open>skyColors\<close>.\<close>

definition skyColors_day :: color where
  "skyColors_day = Color 0x87ceeb"

definition skyColors_sunset :: color where
  "skyColors_sunset = Color 0xff7f50"

definition skyColors_night :: color where
  "skyColors_night = Color 0x000033"

subsection \<open>The scene graph\<close>

text \<open>
  The function writes through references: \<open>userData.light\<close> and \<open>userData.bulb\<close> of a
  lamppost point at two of its children, and a material may be shared by several meshes
  (the two headlights of a car share one). Objects and materials are therefore addresses,
  and a scene holds, for each field the function reads or writes, the value of that field
  at every address. The parent-child structure, which the function only walks, is a tree
  of object addresses.
\<close>

type_synonym ref = nat

datatype node = Node (node_ref: ref) (node_children: "node list")

datatype object_class = SceneObject | GroupObject | MeshObject | LightObject | OtherObject

record scene =
  hierarchy :: node
  object_class :: "ref \<Rightarrow> object_class"
  position :: "ref \<Rightarrow> real \<times> real \<times> real"
  intensity :: "ref \<Rightarrow> real"
  material :: "ref \<Rightarrow> ref option"
  userData_light :: "ref \<Rightarrow> ref option"
  userData_bulb :: "ref \<Rightarrow> ref option"
  isMeshStandardMaterial :: "ref \<Rightarrow> bool"
  emissive :: "ref \<Rightarrow> color option"
  emissiveIntensity :: "ref \<Rightarrow> real"
  background :: color

text \<open>
  \<open>Object3D.traverse\<close> of three.js calls the callback on the object, then traverses each
  child in order: the objects are visited in this order.
\<close>

fun traverse :: "node \<Rightarrow> node list" where
  "traverse (Node r cs) = Node r cs # concat (map traverse cs)"

subsection \<open>The function\<close>

definition sunAngle :: "real \<Rightarrow> real" where
  "sunAngle dayProgress = dayProgress * pi * 2 - pi / 2"

definition sunHeight :: "real \<Rightarrow> real" where
  "sunHeight dayProgress = sin (sunAngle dayProgress) * 50 + 50"

text \<open>The chain of tests that chooses \<open>skyColor\<close> from the sun height.\<close>

definition skyColor :: "real \<Rightarrow> color" where
  "skyColor h =
     (if h > 80 then skyColors_day
      else if h > 25 then
        (let t = (h - 25) / 55 in lerpColors skyColors_sunset skyColors_day t)
      else if h > 0 then
        (let t = h / 25 in lerpColors skyColors_night skyColors_sunset t)
      else skyColors_night)"

text \<open>
  \<^verbatim>\<open>if (bulb && bulb.material instanceof THREE.MeshStandardMaterial) {
    bulb.material.emissiveIntensity = v;
  }\<close>
\<close>

definition setBulb :: "ref option \<Rightarrow> real \<Rightarrow> scene \<Rightarrow> scene" where
  "setBulb bulb v s =
     (case bulb of
        None \<Rightarrow> s
      | Some b \<Rightarrow>
          (case material s b of
             None \<Rightarrow> s
           | Some m \<Rightarrow>
               if isMeshStandardMaterial s m
               then s\<lparr>emissiveIntensity := (emissiveIntensity s)(m := v)\<rparr>
               else s))"

text \<open>The callback of the first \<open>scene.traverse\<close>, for one object.\<close>

definition streetLightCallback :: "real \<Rightarrow> scene \<Rightarrow> ref \<Rightarrow> scene" where
  "streetLightCallback h s object =
     (case userData_light s object of
        None \<Rightarrow> s
      | Some light \<Rightarrow>
          (let bulb = userData_bulb s object
           in if h < 30 then
                (let v = max 0 (1 - h / 30);
                     s = s\<lparr>intensity := (intensity s)(light := v)\<rparr>
                 in setBulb bulb v s)
              else
                (let s = s\<lparr>intensity := (intensity s)(light := 0)\<rparr>
                 in setBulb bulb 0 s)))"

definition updateStreetLights :: "real \<Rightarrow> scene \<Rightarrow> scene" where
  "updateStreetLights h s =
     foldl (\<lambda>s n. streetLightCallback h s (node_ref n)) s (traverse (hierarchy s))"

text \<open>
  The callback of the inner \<open>object.traverse\<close> of the second pass, for one descendant of
  a group.
\<close>

definition headlightCallback :: "real \<Rightarrow> scene \<Rightarrow> ref \<Rightarrow> scene" where
  "headlightCallback h s child =
     (if object_class s child = MeshObject then
        (case material s child of
           None \<Rightarrow> s
         | Some m \<Rightarrow>
             if isMeshStandardMaterial s m \<and> emissive s m \<noteq> None \<and>
                emissive s m = Some (Color 0xffffdd)
             then (if h < 40
                   then s\<lparr>emissiveIntensity := (emissiveIntensity s)(m := 1)\<rparr>
                   else s\<lparr>emissiveIntensity := (emissiveIntensity s)(m := 0)\<rparr>)
             else s)
      else s)"

text \<open>
  The second \<open>scene.traverse\<close>: every object that is a \<open>THREE.Group\<close> is itself traversed
  with the headlight callback.
\<close>

definition updateHeadlights :: "real \<Rightarrow> scene \<Rightarrow> scene" where
  "updateHeadlights h s =
     foldl (\<lambda>s object.
         if object_class s (node_ref object) = GroupObject
         then foldl (\<lambda>s child. headlightCallback h s (node_ref child)) s (traverse object)
         else s)
       s (traverse (hierarchy s))"

text \<open>
  \<open>sunLight\<close> and \<open>ambientLight\<close> are the addresses of the two light objects passed in.
\<close>

definition updateDayNightCycle :: "real \<Rightarrow> ref \<Rightarrow> ref \<Rightarrow> scene \<Rightarrow> scene" where
  "updateDayNightCycle dayProgress sunLight ambientLight s =
     (let a = sunAngle dayProgress;
          sunRadius = 100;
          h = sunHeight dayProgress;
          s = s\<lparr>position := (position s)(sunLight := (cos a * sunRadius, h, sin a * sunRadius))\<rparr>;
          isDaytime = (h > 50);
          sunIntensity = (if isDaytime then 1 else max 0 (h / 50));
          ambientIntensity = (if isDaytime then 0.3 else 0.1);
          s = s\<lparr>intensity := (intensity s)(sunLight := sunIntensity)\<rparr>;
          s = s\<lparr>intensity := (intensity s)(ambientLight := ambientIntensity)\<rparr>;
          s = s\<lparr>background := skyColor h\<rparr>;
          s = updateStreetLights h s;
          s = updateHeadlights h s
      in s)"

subsection \<open>A small scene\<close>

text \<open>
  A scene with the objects \<open>initCity\<close> puts into it, one of each kind that
  \<open>updateDayNightCycle\<close> treats differently: the scene (0), the ambient light (1), the sun
  light (2) at its initial position \<open>(50, 100, 30)\<close>, one lamppost as \<open>createLamppost\<close>
  builds it (group 3 with pole 4, head 5, bulb 6 and point light 7, \<open>userData\<close> pointing
  at 7 and 6) and one car with the parts of \<open>createCar\<close> that matter here (group 8 with a
  body 9 and the two headlights 10 and 11, which share material 24).
\<close>

definition exampleScene :: scene where
  "exampleScene =
     \<lparr> hierarchy =
         Node 0 [Node 1 [], Node 2 [],
                 Node 3 [Node 4 [], Node 5 [], Node 6 [], Node 7 []],
                 Node 8 [Node 9 [], Node 10 [], Node 11 []]],
       object_class = (\<lambda>r. OtherObject)
         (0 := SceneObject, 1 := LightObject, 2 := LightObject, 3 := GroupObject,
          4 := MeshObject, 5 := MeshObject, 6 := MeshObject, 7 := LightObject,
          8 := GroupObject, 9 := MeshObject, 10 := MeshObject, 11 := MeshObject),
       position = (\<lambda>r. (0, 0, 0))
         (2 := (50, 100, 30), 3 := (- 45, 0, - 30), 4 := (0, 2.5, 0), 5 := (0, 5, 0),
          6 := (0, 4.8, 0), 7 := (0, 5, 0), 8 := (12, 0.6, - 37), 9 := (0, 0.5, 0),
          10 := (2, 0.7, - 0.6), 11 := (2, 0.7, 0.6)),
       intensity = (\<lambda>r. 0)(1 := 0.3, 2 := 1, 7 := 0.8),
       material = (\<lambda>r. None)
         (4 := Some 20, 5 := Some 21, 6 := Some 22, 9 := Some 23, 10 := Some 24,
          11 := Some 24),
       userData_light = (\<lambda>r. None)(3 := Some 7),
       userData_bulb = (\<lambda>r. None)(3 := Some 6),
       isMeshStandardMaterial = (\<lambda>m. m \<in> {20, 21, 22, 23, 24}),
       emissive = (\<lambda>m. Some (Color 0x000000))
         (22 := Some (Color 0xffffee), 24 := Some (Color 0xffffdd)),
       emissiveIntensity = (\<lambda>m. 1)(22 := 0.5, 24 := 0.5),
       background = Color 0x87ceeb \<rparr>"

section \<open>Rounding: properties\<close>

lemma roundEven_of_int [simp]: "roundEven (of_int n) = n"
  by (simp add: roundEven_def)

lemma roundEven_0 [simp]: "roundEven 0 = 0"
  by (simp add: roundEven_def)

lemma roundEven_bounds: "\<lfloor>y\<rfloor> \<le> roundEven y" "roundEven y \<le> \<lfloor>y\<rfloor> + 1"
  by (simp_all add: roundEven_def Let_def)

lemma roundEven_mono:
  assumes "y1 \<le> y2"
  shows "roundEven y1 \<le> roundEven y2"
proof (cases "\<lfloor>y1\<rfloor> = \<lfloor>y2\<rfloor>")
  case True
  then show ?thesis
    using assms by (auto simp: roundEven_def Let_def)
next
  case False
  then have "\<lfloor>y1\<rfloor> + 1 \<le> \<lfloor>y2\<rfloor>"
    using floor_mono [OF assms] by linarith
  then show ?thesis
    using roundEven_bounds(2) [of y1] roundEven_bounds(1) [of y2] by linarith
qed


lemma roundEven_ge: "of_int n \<le> y \<Longrightarrow> n \<le> roundEven y"
  using roundEven_mono [of "of_int n" y] by simp

lemma roundEven_le: "y \<le> of_int n \<Longrightarrow> roundEven y \<le> n"
  using roundEven_mono [of y "of_int n"] by simp

lemma binade_up_bounds:
  "1 \<le> r \<Longrightarrow> r < 2 ^ n \<Longrightarrow> binade_up n r \<le> r \<and> r < 2 * binade_up n r"
proof (induction n arbitrary: r)
  case 0
  then show ?case by simp
next
  case (Suc n)
  show ?case
  proof (cases "r < 2")
    case True
    then show ?thesis using Suc.prems by simp
  next
    case False
    then have "1 \<le> r / 2" "r / 2 < 2 ^ n"
      using Suc.prems by simp_all
    from Suc.IH [OF this] show ?thesis
      using False by simp
  qed
qed

lemma binade_up_overflow: "2 ^ n \<le> r \<Longrightarrow> binade_up n r = 2 ^ n"
proof (induction n arbitrary: r)
  case 0
  then show ?case by simp
next
  case (Suc n)
  then have "2 ^ n \<le> r / 2"
    by simp
  moreover have "(1::real) \<le> 2 ^ n"
    by simp
  ultimately have "\<not> r < 2"
    by linarith
  then show ?case
    using Suc.IH [OF \<open>2 ^ n \<le> r / 2\<close>] by simp
qed

lemma binade_up_power: "\<exists>m\<le>n. binade_up n r = 2 ^ m"
proof (induction n arbitrary: r)
  case 0
  then show ?case by simp
next
  case (Suc n)
  show ?case
  proof (cases "r < 2")
    case True
    then have "binade_up (Suc n) r = 2 ^ 0" by simp
    then show ?thesis by blast
  next
    case False
    obtain m where "m \<le> n" "binade_up n (r / 2) = 2 ^ m"
      using Suc.IH by blast
    then have "Suc m \<le> Suc n" "binade_up (Suc n) r = 2 ^ Suc m"
      using False by simp_all
    then show ?thesis by blast
  qed
qed

lemma binade_down_ge1: "1 \<le> r \<Longrightarrow> binade_down n r = 1"
  by (cases n) simp_all

lemma binade_down_bounds:
  "r < 2 \<Longrightarrow> 1 / 2 ^ n \<le> r \<Longrightarrow> binade_down n r \<le> r \<and> r < 2 * binade_down n r"
proof (induction n arbitrary: r)
  case 0
  then show ?case by simp
next
  case (Suc n)
  show ?case
  proof (cases "1 \<le> r")
    case True
    then show ?thesis using Suc.prems by simp
  next
    case False
    then have "r * 2 < 2" "1 / 2 ^ n \<le> r * 2"
      using Suc.prems by (simp_all add: field_simps)
    from Suc.IH [OF this] show ?thesis
      using False by simp
  qed
qed

lemma binade_down_subnormal: "r < 1 / 2 ^ n \<Longrightarrow> binade_down n r = 1 / 2 ^ n"
proof (induction n arbitrary: r)
  case 0
  then show ?case by simp
next
  case (Suc n)
  then have "r * 2 < 1 / 2 ^ n"
    by (simp add: field_simps)
  moreover have "1 / 2 ^ n \<le> (1::real)"
    by simp
  ultimately have "\<not> 1 \<le> r"
    using Suc.prems by (smt (verit) mult_2_right)
  then show ?case
    using Suc.IH [OF \<open>r * 2 < 1 / 2 ^ n\<close>] by simp
qed

lemma binade_down_power: "\<exists>m\<le>n. binade_down n r = 1 / 2 ^ m"
proof (induction n arbitrary: r)
  case 0
  then show ?case by simp
next
  case (Suc n)
  show ?case
  proof (cases "1 \<le> r")
    case True
    then have "binade_down (Suc n) r = 1 / 2 ^ 0" by simp
    then show ?thesis by blast
  next
    case False
    obtain m where "m \<le> n" "binade_down n (r * 2) = 1 / 2 ^ m"
      using Suc.IH by blast
    then have "Suc m \<le> Suc n" "binade_down (Suc n) r = 1 / 2 ^ Suc m"
      using False by simp_all
    then show ?thesis by blast
  qed
qed


lemma binade_pos: "0 < binade r"
proof (cases "1 \<le> \<bar>r\<bar>")
  case True
  obtain m where "binade_up 1024 \<bar>r\<bar> = 2 ^ m"
    using binade_up_power by blast
  then show ?thesis using True by (simp add: binade_def)
next
  case False
  obtain m where "binade_down 1022 \<bar>r\<bar> = 1 / 2 ^ m"
    using binade_down_power by blast
  then show ?thesis using False by (simp add: binade_def)
qed

text \<open>Every binade is \<open>2 ^ m / 2 ^ 1022\<close> for some \<open>m \<le> 2046\<close>.\<close>

lemma binade_power: "\<exists>m\<le>2046. binade r = 2 ^ m / 2 ^ 1022"
proof (cases "1 \<le> \<bar>r\<bar>")
  case True
  obtain m where m: "m \<le> 1024" "binade_up 1024 \<bar>r\<bar> = 2 ^ m"
    using binade_up_power by blast
  have "(2::real) ^ (m + 1022) / 2 ^ 1022 = 2 ^ m"
    by (simp add: power_add)
  then have "binade r = 2 ^ (m + 1022) / 2 ^ 1022" "m + 1022 \<le> 2046"
    using True m by (simp_all add: binade_def)
  then show ?thesis by blast
next
  case False
  obtain m where m: "m \<le> 1022" "binade_down 1022 \<bar>r\<bar> = 1 / 2 ^ m"
    using binade_down_power by blast
  have "(2::real) ^ (1022 - m) / 2 ^ 1022 = 1 / 2 ^ m"
    using m(1) by (simp add: power_diff field_simps)
  then have "binade r = 2 ^ (1022 - m) / 2 ^ 1022" "1022 - m \<le> 2046"
    using False m by (simp_all add: binade_def)
  then show ?thesis by blast
qed

lemma binade_normal:
  assumes "1 / 2 ^ 1022 \<le> \<bar>r\<bar>" and "\<bar>r\<bar> < 2 ^ 1024"
  shows "binade r \<le> \<bar>r\<bar>" and "\<bar>r\<bar> < 2 * binade r"
proof -
  have "binade r \<le> \<bar>r\<bar> \<and> \<bar>r\<bar> < 2 * binade r"
  proof (cases "1 \<le> \<bar>r\<bar>")
    case True
    then show ?thesis
      using binade_up_bounds [of "\<bar>r\<bar>" 1024] assms(2) by (simp add: binade_def)
  next
    case False
    then show ?thesis
      using binade_down_bounds [of "\<bar>r\<bar>" 1022] assms(1) by (simp add: binade_def)
  qed
  then show "binade r \<le> \<bar>r\<bar>" and "\<bar>r\<bar> < 2 * binade r"
    by simp_all
qed

lemma binade_subnormal: "\<bar>r\<bar> < 1 / 2 ^ 1022 \<Longrightarrow> binade r = 1 / 2 ^ 1022"
proof -
  assume a: "\<bar>r\<bar> < 1 / 2 ^ 1022"
  have "(1::real) / 2 ^ 1022 \<le> 1"
    by simp
  then have "\<not> 1 \<le> \<bar>r\<bar>"
    using a by linarith
  then show ?thesis
    using binade_down_subnormal [OF a] by (simp add: binade_def)
qed

lemma binade_overflow: "2 ^ 1024 \<le> \<bar>r\<bar> \<Longrightarrow> binade r = 2 ^ 1024"
proof -
  assume a: "2 ^ 1024 \<le> \<bar>r\<bar>"
  have "(1::real) \<le> 2 ^ 1024"
    by simp
  then have "1 \<le> \<bar>r\<bar>"
    using a by linarith
  then show ?thesis
    using binade_up_overflow [OF a] by (simp add: binade_def)
qed

lemma binade_upper: "\<bar>r\<bar> < 2 ^ 1024 \<Longrightarrow> \<bar>r\<bar> < 2 * binade r"
proof (cases "1 / 2 ^ 1022 \<le> \<bar>r\<bar>")
  case True
  assume "\<bar>r\<bar> < 2 ^ 1024"
  with True show ?thesis by (rule binade_normal(2))
next
  case False
  then have "binade r = 1 / 2 ^ 1022"
    using binade_subnormal by simp
  then show ?thesis using False by simp
qed

lemma binade_lower: "1 / 2 ^ 1022 \<le> \<bar>r\<bar> \<Longrightarrow> binade r \<le> \<bar>r\<bar>"
proof (cases "\<bar>r\<bar> < 2 ^ 1024")
  case True
  assume "1 / 2 ^ 1022 \<le> \<bar>r\<bar>"
  then show ?thesis using True by (rule binade_normal(1))
next
  case False
  then show ?thesis using binade_overflow [of r] by simp
qed

lemma binade_abs: "binade \<bar>r\<bar> = binade r" "binade (- r) = binade r"
  by (simp_all add: binade_def)


lemma pow2_div_le: "m \<le> a + b \<Longrightarrow> (2::real) ^ m / 2 ^ a \<le> 2 ^ b"
proof -
  assume "m \<le> a + b"
  then have "(2::real) ^ m \<le> 2 ^ (a + b)"
    by (intro power_increasing) simp_all
  then show ?thesis
    by (simp add: field_simps power_add)
qed

lemma binade_le_max: "binade r \<le> 2 ^ 1024"
proof -
  obtain m where "m \<le> 2046" "binade r = 2 ^ m / 2 ^ 1022"
    using binade_power by blast
  then show ?thesis
    using pow2_div_le [of m 1022 1024] by simp
qed

lemma binade_ge_min: "1 / 2 ^ 1022 \<le> binade r"
proof -
  obtain m where "binade r = 2 ^ m / 2 ^ 1022"
    using binade_power by blast
  moreover have "(1::real) \<le> 2 ^ m"
    by simp
  ultimately show ?thesis
    by (simp only: divide_right_mono zero_le_power zero_le_numeral)
qed

lemma binade_eqI:
  assumes "P = 2 ^ m / 2 ^ 1022" and "m \<le> 2045" and "P \<le> \<bar>r\<bar>" and "\<bar>r\<bar> < 2 * P"
  shows "binade r = P"
proof -
  have "(1::real) \<le> 2 ^ m"
    by simp
  then have "1 / 2 ^ 1022 \<le> P"
    unfolding assms(1) by (simp only: divide_right_mono zero_le_power zero_le_numeral)
  then have lo: "1 / 2 ^ 1022 \<le> \<bar>r\<bar>"
    using assms(3) by linarith
  have "(2::real) ^ Suc m / 2 ^ 1022 \<le> 2 ^ 1024"
    using assms(2) by (intro pow2_div_le) simp
  then have "2 * P \<le> 2 ^ 1024"
    unfolding assms(1) by simp
  then have hi: "\<bar>r\<bar> < 2 ^ 1024"
    using assms(4) by linarith
  obtain j where j: "binade r = 2 ^ j / 2 ^ 1022"
    using binade_power by blast
  have "(2::real) ^ j / 2 ^ 1022 < 2 * (2 ^ m / 2 ^ 1022)"
    using binade_normal(1) [OF lo hi] assms(1,4) j by linarith
  then have "(2::real) ^ j < 2 ^ Suc m"
    by (simp add: field_simps)
  then have "j < Suc m"
    using power_less_imp_less_exp [of "2::real" "j" "Suc m"] by simp
  moreover have "(2::real) ^ m / 2 ^ 1022 < 2 * (2 ^ j / 2 ^ 1022)"
    using binade_normal(2) [OF lo hi] assms(1,3) j by linarith
  then have "(2::real) ^ m < 2 ^ Suc j"
    by (simp add: field_simps)
  then have "m < Suc j"
    using power_less_imp_less_exp [of "2::real" "m" "Suc j"] by simp
  ultimately have "j = m"
    by simp
  then show ?thesis
    using j assms(1) by simp
qed

lemma binade_mono:
  assumes "\<bar>a\<bar> \<le> \<bar>b\<bar>"
  shows "binade a \<le> binade b"
proof (rule ccontr)
  assume "\<not> binade a \<le> binade b"
  then have lt: "binade b < binade a"
    by simp
  obtain i j where ij: "binade a = 2 ^ i / 2 ^ 1022" "binade b = 2 ^ j / 2 ^ 1022"
    using binade_power by blast
  from lt have "(2::real) ^ j < 2 ^ i"
    unfolding ij by (simp add: field_simps)
  then have "j < i"
    using power_less_imp_less_exp [of "2::real" "j" "i"] by simp
  then have "(2::real) ^ Suc j \<le> 2 ^ i"
    by (intro power_increasing) simp_all
  then have two: "2 * binade b \<le> binade a"
    unfolding ij by (simp add: field_simps)
  have "1 / 2 ^ 1022 \<le> binade b"
    by (rule binade_ge_min)
  then have "1 / 2 ^ 1022 < binade a"
    using lt by linarith
  then have "binade a \<noteq> 1 / 2 ^ 1022"
    by simp
  then have "1 / 2 ^ 1022 \<le> \<bar>a\<bar>"
    using binade_subnormal [of a] by fastforce
  then have a: "binade a \<le> \<bar>a\<bar>"
    by (rule binade_lower)
  have "binade b < 2 ^ 1024"
    using binade_le_max [of a] lt by linarith
  then have "binade b \<noteq> 2 ^ 1024"
    by simp
  then have "\<bar>b\<bar> < 2 ^ 1024"
    using binade_overflow [of b] by fastforce
  then have "\<bar>b\<bar> < 2 * binade b"
    by (rule binade_upper)
  then show False
    using a two assms by linarith
qed

lemma binade_step:
  assumes "binade a < binade b"
  shows "2 * binade a \<le> binade b"
proof -
  obtain i j where ij: "binade a = 2 ^ i / 2 ^ 1022" "binade b = 2 ^ j / 2 ^ 1022"
    using binade_power by blast
  from assms have "(2::real) ^ i < 2 ^ j"
    unfolding ij by (simp add: field_simps)
  then have "i < j"
    using power_less_imp_less_exp [of "2::real" "i" "j"] by simp
  then have "(2::real) ^ Suc i \<le> 2 ^ j"
    by (intro power_increasing) simp_all
  then show ?thesis
    unfolding ij by (simp add: field_simps)
qed

lemma ulp_pos: "0 < ulp r"
  by (simp add: ulp_def binade_pos)

lemma ulp_minus: "ulp (- r) = ulp r"
  by (simp add: ulp_def binade_abs)

lemma fl_nonneg_eq: "0 \<le> r \<Longrightarrow> fl r = ulp r * of_int (roundEven (r / ulp r))"
  by (simp add: fl_def)

lemma fl_0: "fl 0 = 0"
  by (simp add: fl_def)

lemma fl_minus: "fl (- r) = - fl r"
proof -
  consider "r < 0" | "r = 0" | "0 < r"
    by linarith
  then show ?thesis
    by cases (simp_all add: fl_def ulp_minus)
qed

lemma fl_nonneg: "0 \<le> r \<Longrightarrow> 0 \<le> fl r"
proof -
  assume r: "0 \<le> r"
  then have "0 \<le> r / ulp r"
    using ulp_pos [of r] by simp
  then have "0 \<le> roundEven (r / ulp r)"
    using roundEven_ge [of 0] by simp
  then show ?thesis
    using ulp_pos [of r] r by (simp add: fl_nonneg_eq)
qed

lemma fl_ge_binade:
  assumes "0 \<le> r" and "binade r \<le> r"
  shows "binade r \<le> fl r"
proof -
  have "of_int (2 ^ 52) \<le> r / ulp r"
    using assms(2) binade_pos [of r] by (simp add: ulp_def field_simps)
  then have "2 ^ 52 \<le> roundEven (r / ulp r)"
    by (rule roundEven_ge)
  then have "(2::real) ^ 52 \<le> of_int (roundEven (r / ulp r))"
    by (metis of_int_le_iff of_int_numeral of_int_power)
  then have "ulp r * 2 ^ 52 \<le> ulp r * of_int (roundEven (r / ulp r))"
    using ulp_pos [of r] by (simp add: mult_le_cancel_left_pos)
  then show ?thesis
    using assms(1) by (simp add: fl_nonneg_eq ulp_def)
qed

lemma fl_le_binade:
  assumes "0 \<le> r" and "r \<le> 2 * binade r"
  shows "fl r \<le> 2 * binade r"
proof -
  have "r / ulp r \<le> of_int (2 ^ 53)"
    using assms(2) binade_pos [of r] by (simp add: ulp_def field_simps)
  then have "roundEven (r / ulp r) \<le> 2 ^ 53"
    by (rule roundEven_le)
  then have "of_int (roundEven (r / ulp r)) \<le> (2::real) ^ 53"
    by (metis of_int_le_iff of_int_numeral of_int_power)
  then have "ulp r * of_int (roundEven (r / ulp r)) \<le> ulp r * 2 ^ 53"
    using ulp_pos [of r] by (simp add: mult_le_cancel_left_pos)
  then show ?thesis
    using assms(1) by (simp add: fl_nonneg_eq ulp_def)
qed

lemma fl_mono_nonneg:
  assumes "0 \<le> a" and "a \<le> b"
  shows "fl a \<le> fl b"
proof (cases "binade a = binade b")
  case True
  then have u: "ulp a = ulp b"
    by (simp add: ulp_def)
  have "a / ulp b \<le> b / ulp b"
    using assms(2) ulp_pos [of b] by (simp add: divide_right_mono)
  then have "roundEven (a / ulp b) \<le> roundEven (b / ulp b)"
    by (rule roundEven_mono)
  then have "ulp b * of_int (roundEven (a / ulp b)) \<le> ulp b * of_int (roundEven (b / ulp b))"
    using ulp_pos [of b] by (simp add: mult_le_cancel_left_pos)
  then show ?thesis
    using assms by (simp add: fl_nonneg_eq u)
next
  case False
  have "binade a \<le> binade b"
    using assms by (intro binade_mono) simp
  with False have lt: "binade a < binade b"
    by simp
  then have two: "2 * binade a \<le> binade b"
    by (rule binade_step)
  have "binade a < 2 ^ 1024"
    using binade_le_max [of b] lt by linarith
  then have "\<bar>a\<bar> < 2 ^ 1024"
    using binade_overflow [of a] by fastforce
  then have "a \<le> 2 * binade a"
    using binade_upper [of a] assms(1) by simp
  then have up: "fl a \<le> 2 * binade a"
    using assms(1) by (intro fl_le_binade)
  have "1 / 2 ^ 1022 \<le> binade a"
    by (rule binade_ge_min)
  then have "binade b \<noteq> 1 / 2 ^ 1022"
    using lt by simp
  then have "1 / 2 ^ 1022 \<le> \<bar>b\<bar>"
    using binade_subnormal [of b] by fastforce
  then have "binade b \<le> b"
    using binade_lower [of b] assms by simp
  then have "binade b \<le> fl b"
    using assms by (intro fl_ge_binade) simp_all
  then show ?thesis
    using up two by linarith
qed

lemma fl_mono:
  assumes "a \<le> b"
  shows "fl a \<le> fl b"
proof -
  consider "0 \<le> a" | "a < 0" "0 \<le> b" | "b < 0"
    by linarith
  then show ?thesis
  proof cases
    case 1
    then show ?thesis using assms by (rule fl_mono_nonneg)
  next
    case 2
    then have "0 \<le> fl (- a)" "0 \<le> fl b"
      by (simp_all add: fl_nonneg)
    then show ?thesis by (simp add: fl_minus)
  next
    case 3
    then have "fl (- b) \<le> fl (- a)"
      using assms by (intro fl_mono_nonneg) simp_all
    then show ?thesis by (simp add: fl_minus)
  qed
qed


lemma pow2_shift: "b \<le> a + N \<Longrightarrow> (2::real) ^ a / 2 ^ b = 2 ^ (a + N - b) / 2 ^ N"
proof -
  assume "b \<le> a + N"
  then have "(2::real) ^ (a + N) = 2 ^ (a + N - b) * 2 ^ b"
    by (simp add: power_add [symmetric])
  then show ?thesis
    by (simp add: field_simps power_add)
qed

lemma binade_eqI2:
  assumes "a \<le> b + 1023" and "b \<le> a + 1022"
    and "2 ^ a / 2 ^ b \<le> \<bar>r\<bar>" and "\<bar>r\<bar> < 2 * (2 ^ a / 2 ^ b)"
  shows "binade r = 2 ^ a / 2 ^ b"
proof -
  have "(2::real) ^ a / 2 ^ b = 2 ^ (a + 1022 - b) / 2 ^ 1022"
    using assms(2) by (rule pow2_shift)
  moreover have "a + 1022 - b \<le> 2045"
    using assms(1,2) by simp
  ultimately show ?thesis
    using assms(3,4) by (intro binade_eqI [of _ "a + 1022 - b"]) simp_all
qed


lemma fl_in_binade:
  assumes "a \<le> b + 1023" and "b \<le> a + 1022"
    and "2 ^ a / 2 ^ b \<le> r" and "r < 2 * (2 ^ a / 2 ^ b)"
  shows "fl r = of_int (roundEven (r * 2 ^ (b + 52) / 2 ^ a)) * 2 ^ a / 2 ^ (b + 52)"
proof -
  have "(0::real) < 2 ^ a / 2 ^ b"
    by simp
  then have r: "0 \<le> r"
    using assms(3) by linarith
  then have "binade r = 2 ^ a / 2 ^ b"
    using assms by (intro binade_eqI2) simp_all
  then have u: "ulp r = 2 ^ a / 2 ^ (b + 52)"
    unfolding ulp_def by (simp only: power_add divide_divide_eq_left)
  have "r / (2 ^ a / 2 ^ (b + 52)) = r * 2 ^ (b + 52) / 2 ^ a"
    by (simp only: divide_divide_eq_right)
  then show ?thesis
    unfolding fl_nonneg_eq [OF r] u by simp
qed


lemma fl_pow2: "a \<le> 1023 \<Longrightarrow> fl (2 ^ a) = 2 ^ a"
proof -
  assume a: "a \<le> 1023"
  have "roundEven (2 ^ a * 2 ^ (0 + 52) / 2 ^ a) = 2 ^ 52"
    using roundEven_of_int [of "2 ^ 52"] by simp
  then have "fl (2 ^ a) = of_int (2 ^ 52) * 2 ^ a / 2 ^ (0 + 52)"
    using fl_in_binade [of a 0 "2 ^ a"] a by simp
  then show ?thesis
    by simp
qed

lemma abs_fl: "\<bar>fl r\<bar> = fl \<bar>r\<bar>"
  using fl_nonneg [of r] fl_nonneg [of "- r"]
  by (cases "0 \<le> r") (simp_all add: fl_minus abs_if)

lemma rnd_finite:
  assumes "\<bar>r\<bar> \<le> 2 ^ 1023"
  shows "rnd r = Num (fl r)"
proof -
  have "fl \<bar>r\<bar> \<le> fl (2 ^ 1023)"
    using assms by (rule fl_mono)
  then have le: "\<bar>fl r\<bar> \<le> 2 ^ 1023"
    using fl_pow2 [of 1023] by (simp only: abs_fl le_refl)
  have "(2::real) ^ 1023 < 2 ^ 1024"
    by (intro power_strict_increasing) simp_all
  with le have "\<bar>fl r\<bar> < 2 ^ 1024"
    by (rule le_less_trans)
  then have "\<not> 2 ^ 1024 \<le> fl r" "\<not> fl r \<le> - (2 ^ 1024)"
    by (simp_all only: abs_less_iff not_le minus_less_iff) 
  then show ?thesis
    by (simp only: rnd_def Let_def if_False)
qed




subsection \<open>Evaluating a rounding\<close>

text \<open>
  In a given binade the double nearest to \<open>r\<close> is \<open>roundEven (r * s) / s\<close>, where \<open>1 / s\<close> is
  the spacing of the doubles there.
\<close>

lemma fl_binade_num:
  assumes "lo = 2 ^ a / 2 ^ b" and "s = 2 ^ (b + 52) / 2 ^ a"
    and "a \<le> b + 1023" and "b \<le> a + 1022" and "lo \<le> r" and "r < 2 * lo"
  shows "fl r = of_int (roundEven (r * s)) / s"
  using fl_in_binade [of a b r] assms by simp

lemma fl_binade_m7:
  "1 / 128 \<le> r \<Longrightarrow> r < 1 / 64 \<Longrightarrow>
     fl r = of_int (roundEven (r * 576460752303423488)) / 576460752303423488"
  by (rule fl_binade_num [where a = 0 and b = 7 and lo = "1 / 128" and s = "576460752303423488"]) simp_all

lemma fl_binade_m6:
  "1 / 64 \<le> r \<Longrightarrow> r < 1 / 32 \<Longrightarrow>
     fl r = of_int (roundEven (r * 288230376151711744)) / 288230376151711744"
  by (rule fl_binade_num [where a = 0 and b = 6 and lo = "1 / 64" and s = "288230376151711744"]) simp_all

lemma fl_binade_m5:
  "1 / 32 \<le> r \<Longrightarrow> r < 1 / 16 \<Longrightarrow>
     fl r = of_int (roundEven (r * 144115188075855872)) / 144115188075855872"
  by (rule fl_binade_num [where a = 0 and b = 5 and lo = "1 / 32" and s = "144115188075855872"]) simp_all

lemma fl_binade_m4:
  "1 / 16 \<le> r \<Longrightarrow> r < 1 / 8 \<Longrightarrow>
     fl r = of_int (roundEven (r * 72057594037927936)) / 72057594037927936"
  by (rule fl_binade_num [where a = 0 and b = 4 and lo = "1 / 16" and s = "72057594037927936"]) simp_all

lemma fl_binade_m3:
  "1 / 8 \<le> r \<Longrightarrow> r < 1 / 4 \<Longrightarrow>
     fl r = of_int (roundEven (r * 36028797018963968)) / 36028797018963968"
  by (rule fl_binade_num [where a = 0 and b = 3 and lo = "1 / 8" and s = "36028797018963968"]) simp_all

lemma fl_binade_m2:
  "1 / 4 \<le> r \<Longrightarrow> r < 1 / 2 \<Longrightarrow>
     fl r = of_int (roundEven (r * 18014398509481984)) / 18014398509481984"
  by (rule fl_binade_num [where a = 0 and b = 2 and lo = "1 / 4" and s = "18014398509481984"]) simp_all

lemma fl_binade_m1:
  "1 / 2 \<le> r \<Longrightarrow> r < 1 \<Longrightarrow>
     fl r = of_int (roundEven (r * 9007199254740992)) / 9007199254740992"
  by (rule fl_binade_num [where a = 0 and b = 1 and lo = "1 / 2" and s = "9007199254740992"]) simp_all

lemma fl_binade_p0:
  "1 \<le> r \<Longrightarrow> r < 2 \<Longrightarrow>
     fl r = of_int (roundEven (r * 4503599627370496)) / 4503599627370496"
  by (rule fl_binade_num [where a = 0 and b = 0 and lo = "1" and s = "4503599627370496"]) simp_all

lemma fl_binade_p1:
  "2 \<le> r \<Longrightarrow> r < 4 \<Longrightarrow>
     fl r = of_int (roundEven (r * 2251799813685248)) / 2251799813685248"
  by (rule fl_binade_num [where a = 1 and b = 0 and lo = "2" and s = "2251799813685248"]) simp_all

lemma fl_binade_p2:
  "4 \<le> r \<Longrightarrow> r < 8 \<Longrightarrow>
     fl r = of_int (roundEven (r * 1125899906842624)) / 1125899906842624"
  by (rule fl_binade_num [where a = 2 and b = 0 and lo = "4" and s = "1125899906842624"]) simp_all

lemma fl_binade_p5:
  "32 \<le> r \<Longrightarrow> r < 64 \<Longrightarrow>
     fl r = of_int (roundEven (r * (140737488355328))) / (140737488355328)"
  by (rule fl_binade_num [where a = 5 and b = 0 and lo = "32" and s = "140737488355328"]) simp_all

lemma fl_binade_p55:
  "36028797018963968 \<le> r \<Longrightarrow> r < 72057594037927936 \<Longrightarrow>
     fl r = of_int (roundEven (r * (1 / 8))) / (1 / 8)"
  by (rule fl_binade_num [where a = 55 and b = 0 and lo = "36028797018963968" and s = "1 / 8"]) simp_all

lemmas fl_small = fl_binade_m7 fl_binade_m6 fl_binade_m5 fl_binade_m4 fl_binade_m3 fl_binade_m2 fl_binade_m1 fl_binade_p0 fl_binade_p1 fl_binade_p2

lemma rnd_small: "\<bar>r\<bar> \<le> 8 \<Longrightarrow> rnd r = Num (fl r)"
proof -
  assume "\<bar>r\<bar> \<le> 8"
  moreover have "(8::real) \<le> 2 ^ 1023"
    using power_increasing [of 3 1023 "2::real"] by simp
  ultimately have "\<bar>r\<bar> \<le> 2 ^ 1023"
    by (rule order_trans)
  then show ?thesis
    by (rule rnd_finite)
qed

subsection \<open>Results of operations\<close>

lemma pow2_1024_pos: "(0::real) < 2 ^ 1024"
  by (rule zero_less_power) simp

lemma rnd_cases:
  "(rnd r = Num (fl r) \<and> \<bar>fl r\<bar> < 2 ^ 1024) \<or> (rnd r = PInf \<and> 2 ^ 1024 \<le> fl r) \<or>
   (rnd r = NInf \<and> fl r \<le> - (2 ^ 1024))"
proof -
  consider "2 ^ 1024 \<le> fl r" | "fl r \<le> - (2 ^ 1024)"
    | "\<not> 2 ^ 1024 \<le> fl r" "\<not> fl r \<le> - (2 ^ 1024)"
    by blast
  then show ?thesis
  proof cases
    case 1
    then show ?thesis
      by (simp only: rnd_def Let_def if_True simp_thms)
  next
    case 2
    moreover from 2 have "\<not> 2 ^ 1024 \<le> fl r"
      using pow2_1024_pos by linarith
    ultimately show ?thesis
      by (simp only: rnd_def Let_def if_True if_False simp_thms)
  next
    case 3
    moreover from 3 have "\<bar>fl r\<bar> < 2 ^ 1024"
      by (simp only: abs_less_iff not_le minus_less_iff simp_thms)
    ultimately show ?thesis
      by (simp only: rnd_def Let_def if_False simp_thms)
  qed
qed

lemma rnd_not_NaN: "rnd r \<noteq> NaN"
  using rnd_cases [of r] by auto







lemma rnd_eval: "\<bar>r\<bar> \<le> 2 ^ 60 \<Longrightarrow> rnd r = Num (fl r)"
proof -
  assume "\<bar>r\<bar> \<le> 2 ^ 60"
  moreover have "(2::real) ^ 60 \<le> 2 ^ 1023"
    by (intro power_increasing) simp_all
  ultimately have "\<bar>r\<bar> \<le> 2 ^ 1023"
    by (rule order_trans)
  then show ?thesis
    by (rule rnd_finite)
qed

lemmas double_eval = rnd_eval fl_small fl_binade_p5 fl_binade_p55 fl_minus fl_0 roundEven_def
  Let_def

section \<open>Layout: properties\<close>

lemma concat_map_if_filter:
  "map h (concat (map (\<lambda>x. if Q x then [] else F x) xs)) =
     concat (map (\<lambda>x. map h (F x)) (filter (\<lambda>x. \<not> Q x) xs))"
  by (induction xs) auto

lemma concat_map_if_single:
  "concat (map (\<lambda>x. map h (if Q x then [] else [f x])) xs) =
     map (\<lambda>x. h (f x)) (filter (\<lambda>x. \<not> Q x) xs)"
  by (induction xs) auto

lemma product_concat:
  "List.product xs ys = concat (map (\<lambda>x. map (Pair x) ys) xs)"
  by (induction xs) auto

lemma createBuildings_cells:
  "map (\<lambda>b. (cell_i b, cell_j b)) (createBuildings g n) =
     filter (\<lambda>(i, j). \<not> isRoadCell i j) (List.product [0..<n] [0..<n])"
  unfolding createBuildings_def Let_def product_concat
  by (simp add: concat_map_if_single map_concat filter_concat comp_def filter_map)

lemma createRoads_strips:
  "map (\<lambda>r. (strip_index r, horizontal r)) (createRoads_roads g n) =
     concat (map (\<lambda>i. [(i, True), (i, False)]) (filter (\<lambda>i. i mod 3 = 1) [0..<n]))"
  unfolding createRoads_roads_def Let_def
  by (simp add: concat_map_if_filter)

lemma createBuildings_type:
  "b \<in> set (createBuildings g n) \<Longrightarrow> b_type b = buildingType (cell_i b) (cell_j b)"
  by (auto simp: createBuildings_def Let_def split: if_splits)

lemma buildingType_cases:
  "buildingType i j =
     (if (i + j) mod 7 = 0 then ''shop''
      else if (i + j) mod 5 = 0 then ''apartment'' else ''skyscraper'')"
  by (simp add: buildingType_def)

text \<open>
  C4. The category of a building is decided by \<open>i + j\<close> alone: shop when
  \<open>(i + j) mod 7 = 0\<close>, otherwise apartment when \<open>(i + j) mod 5 = 0\<close>, otherwise
  skyscraper. The shop test runs second and overwrites, so where both remainders are zero
  (as at \<open>i + j = 0\<close>) the category is shop. Every building that \<open>createBuildings\<close>
  places at a non-road cell carries the category of its cell.
\<close>

theorem buildingType_rule:
  "((i + j) mod 5 = 0 \<and> (i + j) mod 7 \<noteq> 0 \<longrightarrow> buildingType i j = ''apartment'') \<and>
   ((i + j) mod 7 = 0 \<longrightarrow> buildingType i j = ''shop'') \<and>
   ((i + j) mod 5 \<noteq> 0 \<and> (i + j) mod 7 \<noteq> 0 \<longrightarrow> buildingType i j = ''skyscraper'') \<and>
   ((i + j) mod 5 = 0 \<and> (i + j) mod 7 = 0 \<longrightarrow> buildingType i j = ''shop'') \<and>
   buildingType 0 0 = ''shop'' \<and>
   (\<forall>b \<in> set (createBuildings g n).
      \<not> isRoadCell (cell_i b) (cell_j b) \<and> b_type b = buildingType (cell_i b) (cell_j b))"
proof -
  have "\<not> isRoadCell (cell_i b) (cell_j b)" if "b \<in> set (createBuildings g n)" for b
  proof -
    from that have "(cell_i b, cell_j b) \<in> set (map (\<lambda>b. (cell_i b, cell_j b)) (createBuildings g n))"
      by force
    then show ?thesis
      unfolding createBuildings_cells by simp
  qed
  then show ?thesis
    by (simp add: buildingType_cases createBuildings_type)
qed

theorem buildingType_rule_witness:
  "(2 + 3) mod 5 = (0::nat) \<and> (2 + 3) mod 7 \<noteq> (0::nat) \<and> buildingType 2 3 = ''apartment'' \<and>
   (3 + 4) mod 7 = (0::nat) \<and> buildingType 3 4 = ''shop'' \<and>
   (0 + 2) mod 5 \<noteq> (0::nat) \<and> (0 + 2) mod 7 \<noteq> (0::nat) \<and> buildingType 0 2 = ''skyscraper'' \<and>
   (35 + 0) mod 5 = (0::nat) \<and> (35 + 0) mod 7 = (0::nat) \<and> buildingType 35 0 = ''shop'' \<and>
   createBuildings 100 1 = [\<lparr>cell_i = 0, cell_j = 0, b_type = ''shop'', b_x = 0, b_z = 0\<rparr>] \<and>
   \<not> isRoadCell (cell_i (hd (createBuildings 100 1))) (cell_j (hd (createBuildings 100 1))) \<and>
   b_type (hd (createBuildings 100 1)) = buildingType 0 0"
proof -
  have a: "(2 + 3) mod 5 = (0::nat) \<and> (2 + 3) mod 7 \<noteq> (0::nat) \<and> buildingType 2 3 = ''apartment'' \<and>
      (3 + 4) mod 7 = (0::nat) \<and> buildingType 3 4 = ''shop'' \<and>
      (0 + 2) mod 5 \<noteq> (0::nat) \<and> (0 + 2) mod 7 \<noteq> (0::nat) \<and> buildingType 0 2 = ''skyscraper'' \<and>
      (35 + 0) mod 5 = (0::nat) \<and> (35 + 0) mod 7 = (0::nat) \<and> buildingType 35 0 = ''shop''"
    using buildingType_rule [of 2 3 100 1] buildingType_rule [of 3 4 100 1]
      buildingType_rule [of 0 2 100 1] buildingType_rule [of 35 0 100 1]
    by simp
  have b: "\<forall>b \<in> set (createBuildings 100 1).
      \<not> isRoadCell (cell_i b) (cell_j b) \<and> b_type b = buildingType (cell_i b) (cell_j b)"
    using buildingType_rule [of 0 0 100 1] by simp
  have c: "createBuildings 100 1 = [\<lparr>cell_i = 0, cell_j = 0, b_type = ''shop'', b_x = 0, b_z = 0\<rparr>]"
    by (simp add: createBuildings_def isRoadCell_def buildingType_def)
  from b c have d: "\<not> isRoadCell (cell_i (hd (createBuildings 100 1))) (cell_j (hd (createBuildings 100 1))) \<and>
      b_type (hd (createBuildings 100 1)) = buildingType 0 0"
    by simp
  from a c d show ?thesis
    by blast
qed

text \<open>
  C5. For a cell \<open>(i, j)\<close> of the grid, the building pass skips it exactly when
  \<open>i mod 3 = 1\<close> or \<open>j mod 3 = 1\<close>: the cells that receive a building are, in order, the
  cells of the grid that fail this test, whatever the world extent. The road pass pushes
  one horizontal and one vertical strip for each index with \<open>i mod 3 = 1\<close> and nothing
  else, so a cell is skipped by the building pass exactly when its column carries a
  vertical strip or its row a horizontal one.
\<close>

theorem cell_role:
  "map (\<lambda>b. (cell_i b, cell_j b)) (createBuildings g n) =
     filter (\<lambda>(i, j). \<not> (i mod 3 = 1 \<or> j mod 3 = 1)) (List.product [0..<n] [0..<n]) \<and>
   map (\<lambda>r. (strip_index r, horizontal r)) (createRoads_roads g n) =
     concat (map (\<lambda>i. [(i, True), (i, False)]) (filter (\<lambda>i. i mod 3 = 1) [0..<n])) \<and>
   (\<forall>i<n. \<forall>j<n.
      (isRoadCell i j \<longleftrightarrow> i mod 3 = 1 \<or> j mod 3 = 1) \<and>
      (isRoadCell i j \<longleftrightarrow> \<not> (\<exists>b \<in> set (createBuildings g n). cell_i b = i \<and> cell_j b = j)) \<and>
      (isRoadCell i j \<longleftrightarrow>
         (\<exists>r \<in> set (createRoads_roads g n). \<not> horizontal r \<and> strip_index r = i) \<or>
         (\<exists>r \<in> set (createRoads_roads g n). horizontal r \<and> strip_index r = j)))"
proof -
  have cells: "(\<exists>b \<in> set (createBuildings g n). cell_i b = i \<and> cell_j b = j) \<longleftrightarrow>
      i < n \<and> j < n \<and> \<not> isRoadCell i j" for i j
  proof -
    have "(\<exists>b \<in> set (createBuildings g n). cell_i b = i \<and> cell_j b = j) \<longleftrightarrow>
        (i, j) \<in> set (map (\<lambda>b. (cell_i b, cell_j b)) (createBuildings g n))"
      by force
    then show ?thesis
      unfolding createBuildings_cells by auto
  qed
  have strips: "(\<exists>r \<in> set (createRoads_roads g n). horizontal r = h \<and> strip_index r = i) \<longleftrightarrow>
      i < n \<and> i mod 3 = 1" for i h
  proof -
    have "(\<exists>r \<in> set (createRoads_roads g n). horizontal r = h \<and> strip_index r = i) \<longleftrightarrow>
        (i, h) \<in> set (map (\<lambda>r. (strip_index r, horizontal r)) (createRoads_roads g n))"
      by force
    then show ?thesis
      unfolding createRoads_strips by (cases h) auto
  qed
  have "map (\<lambda>b. (cell_i b, cell_j b)) (createBuildings g n) =
     filter (\<lambda>(i, j). \<not> (i mod 3 = 1 \<or> j mod 3 = 1)) (List.product [0..<n] [0..<n])"
    using createBuildings_cells [of g n] by (simp add: isRoadCell_def)
  moreover have "\<forall>i<n. \<forall>j<n.
      (isRoadCell i j \<longleftrightarrow> i mod 3 = 1 \<or> j mod 3 = 1) \<and>
      (isRoadCell i j \<longleftrightarrow> \<not> (\<exists>b \<in> set (createBuildings g n). cell_i b = i \<and> cell_j b = j)) \<and>
      (isRoadCell i j \<longleftrightarrow>
         (\<exists>r \<in> set (createRoads_roads g n). \<not> horizontal r \<and> strip_index r = i) \<or>
         (\<exists>r \<in> set (createRoads_roads g n). horizontal r \<and> strip_index r = j))"
    using strips [of False] strips [of True] by (simp add: cells) (simp add: isRoadCell_def)
  ultimately show ?thesis
    using createRoads_strips [of g n] by blast
qed

theorem cell_role_witness:
  "map (\<lambda>b. (cell_i b, cell_j b)) (createBuildings 100 4) = [(0, 0), (0, 2), (0, 3), (2, 0), (2, 2), (2, 3), (3, 0), (3, 2), (3, 3)] \<and>
   map (\<lambda>r. (strip_index r, horizontal r)) (createRoads_roads 100 4) = [(1, True), (1, False)] \<and>
   (1::nat) < 4 \<and> (2::nat) < 4 \<and> isRoadCell 1 2 \<and> \<not> isRoadCell 2 2 \<and>
   \<not> (\<exists>b \<in> set (createBuildings 100 4). cell_i b = 1 \<and> cell_j b = 2) \<and>
   (\<exists>b \<in> set (createBuildings 100 4). cell_i b = 2 \<and> cell_j b = 2) \<and>
   ((\<exists>r \<in> set (createRoads_roads 100 4). \<not> horizontal r \<and> strip_index r = 1) \<or>
    (\<exists>r \<in> set (createRoads_roads 100 4). horizontal r \<and> strip_index r = 2))"
proof -
  have up: "[0..<4] = [0, 1, 2, 3::nat]"
    by (simp add: upt_rec)
  have "filter (\<lambda>(i, j). \<not> (i mod 3 = 1 \<or> j mod 3 = 1)) (List.product [0..<4] [0..<4]) =
      [(0, 0), (0, 2), (0, 3), (2, 0), (2, 2), (2, 3), (3, 0), (3, 2), (3, 3::nat)]"
    unfolding up by simp
  moreover have "concat (map (\<lambda>i. [(i, True), (i, False)]) (filter (\<lambda>i. i mod 3 = 1) [0..<4])) =
      [(1::nat, True), (1, False)]"
    unfolding up by simp
  moreover note r = cell_role [of 100 4]
  moreover note a = r [THEN conjunct2, THEN conjunct2, rule_format, of 1 2]
  moreover note b = r [THEN conjunct2, THEN conjunct2, rule_format, of 2 2]
  moreover have "isRoadCell 1 2" "\<not> isRoadCell 2 2"
    by (simp_all add: isRoadCell_def)
  ultimately show ?thesis
    by simp
qed

section \<open>Motion: properties\<close>















lemma car_at_edge: "jsub (jhalf (Num 100)) (Num (fl (1 / 10))) = Num (7022800668930867 / 140737488355328)"
  by (simp add: jsub_def double_eval)






section \<open>Traffic signals: properties\<close>

lemma updateTrafficLight_timer:
  "timer (updateTrafficLight sg) =
     (if jgt (jadd (timer sg) (Num (fl (1 / 100)))) (Num 5) then Num 0
      else jadd (timer sg) (Num (fl (1 / 100))))"
  by (simp add: updateTrafficLight_def updateLightColors_def updateTimer_def Let_def)

lemma updateTrafficLight_state:
  "state (updateTrafficLight sg) =
     (if jgt (jadd (timer sg) (Num (fl (1 / 100)))) (Num 5) then (state sg + 1) mod 3
      else state sg)"
  by (simp add: updateTrafficLight_def updateLightColors_def updateTimer_def Let_def)

text \<open>The doubles of the literals \<open>0.01\<close> and \<open>4.99\<close>.\<close>

lemma fl_hundredth: "fl (1 / 100) = 5764607523034235 / 576460752303423488"
  by (simp add: fl_small roundEven_def Let_def)

lemma fl_499: "fl (499 / 100) = 2809120267572347 / 562949953421312"
  by (simp add: fl_small roundEven_def Let_def)

lemma timer_499_step: "jadd (Num (fl (499 / 100))) (Num (fl (1 / 100))) = Num 5"
  by (simp add: fl_499 fl_hundredth rnd_small fl_small roundEven_def Let_def)

lemma timer_5_step: "jadd (Num 5) (Num (fl (1 / 100))) = Num (2820379266640773 / 562949953421312)"
  by (simp add: fl_hundredth rnd_small fl_small roundEven_def Let_def)

lemma noFlips_numeral:
  "noFlips (numeral k) t =
     (let t' = jadd t (Num (5764607523034235 / 576460752303423488))
      in if jgt t' (Num 5) then None else noFlips (pred_numeral k) t')"
  by (simp add: numeral_eq_Suc fl_hundredth)

lemma noFlips_1:
  "noFlips 1 t =
     (let t' = jadd t (Num (5764607523034235 / 576460752303423488))
      in if jgt t' (Num 5) then None else Some t')"
  by (simp add: fl_hundredth Let_def)

lemma noFlips_add:
  "noFlips a t = Some t' \<Longrightarrow> noFlips (a + b) t = noFlips b t'"
  by (induction a arbitrary: t) (simp_all add: Let_def split: if_splits)

text \<open>The timer after 100, 200, 300, 400 and 500 updates from 0; none changes the state.\<close>

lemma timer_100: "noFlips 100 (Num 0) = Some (Num (4503599627370499 / 4503599627370496))"
  by (simp add: noFlips_numeral noFlips_1 rnd_small fl_small roundEven_def Let_def)

lemma timer_200: "noFlips 100 (Num (4503599627370499 / 4503599627370496)) = Some (Num (4503599627370499 / 2251799813685248))"
  by (simp add: noFlips_numeral noFlips_1 rnd_small fl_small roundEven_def Let_def)

lemma timer_300: "noFlips 100 (Num (4503599627370499 / 2251799813685248)) = Some (Num (6755399441055699 / 2251799813685248))"
  by (simp add: noFlips_numeral noFlips_1 rnd_small fl_small roundEven_def Let_def)

lemma timer_400: "noFlips 100 (Num (6755399441055699 / 2251799813685248)) = Some (Num (9007199254740899 / 2251799813685248))"
  by (simp add: noFlips_numeral noFlips_1 rnd_small fl_small roundEven_def Let_def)

lemma timer_500: "noFlips 100 (Num (9007199254740899 / 2251799813685248)) = Some (Num (2814749767106525 / 562949953421312))"
  by (simp add: noFlips_numeral noFlips_1 rnd_small fl_small roundEven_def Let_def)

lemma noFlips_500: "noFlips 500 (Num 0) = Some (Num (2814749767106525 / 562949953421312))"
proof -
  have "noFlips (100 + 100) (Num 0) = Some (Num (4503599627370499 / 2251799813685248))"
    by (simp only: noFlips_add [OF timer_100] timer_200)
  then have "noFlips (100 + 100 + 100) (Num 0) = Some (Num (6755399441055699 / 2251799813685248))"
    by (simp only: noFlips_add [where b = 100] timer_300)
  then have "noFlips (100 + 100 + 100 + 100) (Num 0) = Some (Num (9007199254740899 / 2251799813685248))"
    by (simp only: noFlips_add [where b = 100] timer_400)
  then have "noFlips (100 + 100 + 100 + 100 + 100) (Num 0) = Some (Num (2814749767106525 / 562949953421312))"
    by (simp only: noFlips_add [where b = 100] timer_500)
  then show ?thesis
    by simp
qed

lemma timer_501: "jgt (jadd (Num (2814749767106525 / 562949953421312)) (Num (fl (1 / 100)))) (Num 5)"
  by (simp add: fl_hundredth rnd_small fl_small roundEven_def Let_def)

lemma noFlips_run:
  "noFlips n (timer sg) = Some t' \<Longrightarrow>
     timer ((updateTrafficLight ^^ n) sg) = t' \<and>
     state ((updateTrafficLight ^^ n) sg) = state sg"
proof (induction n arbitrary: sg)
  case 0
  then show ?case by simp
next
  case (Suc n)
  let ?t = "jadd (timer sg) (Num (fl (1 / 100)))"
  from Suc.prems have no: "\<not> jgt ?t (Num 5)" and rest: "noFlips n ?t = Some t'"
    by (simp_all add: Let_def split: if_splits)
  from no have t: "timer (updateTrafficLight sg) = ?t"
    and s: "state (updateTrafficLight sg) = state sg"
    by (simp_all add: updateTrafficLight_timer updateTrafficLight_state)
  from rest have "noFlips n (timer (updateTrafficLight sg)) = Some t'"
    by (simp only: t)
  then have "timer ((updateTrafficLight ^^ n) (updateTrafficLight sg)) = t' \<and>
     state ((updateTrafficLight ^^ n) (updateTrafficLight sg)) = state (updateTrafficLight sg)"
    by (rule Suc.IH)
  then show ?case
    by (simp add: funpow_swap1 s)
qed

lemma noFlips_prefix:
  "noFlips n t = Some t' \<Longrightarrow> k \<le> n \<Longrightarrow> \<exists>t''. noFlips k t = Some t''"
proof (induction n arbitrary: t k)
  case 0
  then show ?case by simp
next
  case (Suc n)
  show ?case
  proof (cases k)
    case 0
    then show ?thesis by simp
  next
    case (Suc j)
    let ?t = "jadd t (Num (fl (1 / 100)))"
    from Suc.prems(1) have no: "\<not> jgt ?t (Num 5)" and rest: "noFlips n ?t = Some t'"
      by (simp_all add: Let_def split: if_splits)
    from Suc.prems(2) Suc have "j \<le> n"
      by simp
    with rest have "\<exists>t''. noFlips j ?t = Some t''"
      by (rule Suc.IH)
    then show ?thesis
      using no Suc by (simp add: Let_def)
  qed
qed

lemma run_within_phase:
  assumes "timer sg = Num 0" and "n \<le> 500"
  shows "state ((updateTrafficLight ^^ n) sg) = state sg"
proof -
  have "noFlips 500 (timer sg) = Some (Num (2814749767106525 / 562949953421312))"
    unfolding assms(1) by (rule noFlips_500)
  then obtain t'' where "noFlips n (timer sg) = Some t''"
    using noFlips_prefix assms(2) by blast
  then show ?thesis
    using noFlips_run by blast
qed

lemma run_phase:
  assumes "timer sg = Num 0"
  shows "timer ((updateTrafficLight ^^ 501) sg) = Num 0"
    and "state ((updateTrafficLight ^^ 501) sg) = (state sg + 1) mod 3"
proof -
  have "(updateTrafficLight ^^ 501) sg = updateTrafficLight ((updateTrafficLight ^^ 500) sg)"
    by (simp add: numeral_eq_Suc del: funpow.simps) (simp)
  moreover have "noFlips 500 (timer sg) = Some (Num (2814749767106525 / 562949953421312))"
    unfolding assms by (rule noFlips_500)
  then have "timer ((updateTrafficLight ^^ 500) sg) = Num (2814749767106525 / 562949953421312)"
    and "state ((updateTrafficLight ^^ 500) sg) = state sg"
    using noFlips_run by blast+
  ultimately show "timer ((updateTrafficLight ^^ 501) sg) = Num 0"
    and "state ((updateTrafficLight ^^ 501) sg) = (state sg + 1) mod 3"
    by (simp_all only: updateTrafficLight_timer updateTrafficLight_state timer_501 if_True)
qed

lemma run_split: "(f ^^ (a + b)) x = (f ^^ b) ((f ^^ a) x)"
  by (simp add: funpow_add add.commute [of a b])

lemma run_from:
  assumes "a \<le> n"
  shows "(f ^^ n) x = (f ^^ (n - a)) ((f ^^ a) x)"
  using run_split [where f = f and a = a and b = "n - a" and x = x] assms by simp

lemma run_three_phases:
  assumes "timer sg = Num 0"
  shows "state ((updateTrafficLight ^^ 1503) sg) = (state sg + 3) mod 3"
proof -
  let ?a = "(updateTrafficLight ^^ 501) sg"
  let ?b = "(updateTrafficLight ^^ 501) ?a"
  let ?c = "(updateTrafficLight ^^ 501) ?b"
  have a: "timer ?a = Num 0" "state ?a = (state sg + 1) mod 3"
    using run_phase [OF assms] by simp_all
  have b: "timer ?b = Num 0" "state ?b = (state ?a + 1) mod 3"
    using run_phase [OF a(1)] by simp_all
  have c: "state ?c = (state ?b + 1) mod 3"
    using run_phase [OF b(1)] by simp_all
  have "(updateTrafficLight ^^ 1503) sg = ?c"
    using run_from [of 501 1002 updateTrafficLight sg]
      run_from [of 1002 1503 updateTrafficLight sg] by simp
  then have "state ((updateTrafficLight ^^ 1503) sg) = (((state sg + 1) mod 3 + 1) mod 3 + 1) mod 3"
    by (simp only: c b(2) a(2))
  also have "\<dots> = (state sg + 3) mod 3"
    by presburger
  finally show ?thesis .
qed

lemma run_from_red:
  assumes "state sg = 0" and "timer sg = Num (fl (499 / 100))"
  shows "state (updateTrafficLight sg) = 0" and "timer (updateTrafficLight sg) = Num 5"
    and "state (updateTrafficLight (updateTrafficLight sg)) = 1"
    and "timer (updateTrafficLight (updateTrafficLight sg)) = Num 0"
    and "n \<le> 1504 \<Longrightarrow> state ((updateTrafficLight ^^ n) sg) =
      (if n < 2 then 0 else if n < 503 then 1 else if n < 1004 then 2 else 0)"
proof -
  show s1: "state (updateTrafficLight sg) = 0" and t1: "timer (updateTrafficLight sg) = Num 5"
    using assms(1)
    by (simp_all add: updateTrafficLight_state updateTrafficLight_timer assms(2) timer_499_step
        del: jadd.simps)
  show s2: "state (updateTrafficLight (updateTrafficLight sg)) = 1"
    and t2: "timer (updateTrafficLight (updateTrafficLight sg)) = Num 0"
    using s1
    by (simp_all add: updateTrafficLight_state [of "updateTrafficLight sg"]
        updateTrafficLight_timer [of "updateTrafficLight sg"] t1 timer_5_step del: jadd.simps)
  let ?y = "(updateTrafficLight ^^ 2) sg"
  let ?g = "(updateTrafficLight ^^ 501) ?y"
  let ?r = "(updateTrafficLight ^^ 501) ?g"
  have y: "timer ?y = Num 0" "state ?y = 1"
    using s2 t2 by (simp_all add: numeral_2_eq_2)
  have g: "timer ?g = Num 0" "state ?g = 2"
    using run_phase [OF y(1)] y(2) by simp_all
  have r: "timer ?r = Num 0" "state ?r = 0"
    using run_phase [OF g(1)] g(2) by simp_all
  assume n: "n \<le> 1504"
  consider "n = 0" | "n = 1" | "2 \<le> n" "n < 503" | "503 \<le> n" "n < 1004" | "1004 \<le> n"
    by linarith
  then show "state ((updateTrafficLight ^^ n) sg) =
      (if n < 2 then 0 else if n < 503 then 1 else if n < 1004 then 2 else 0)"
  proof cases
    case 1
    then show ?thesis using assms(1) by simp
  next
    case 2
    then show ?thesis using s1 by simp
  next
    case 3
    then have "(updateTrafficLight ^^ n) sg = (updateTrafficLight ^^ (n - 2)) ?y"
      using run_from [of 2 n updateTrafficLight sg] by simp
    moreover have "state ((updateTrafficLight ^^ (n - 2)) ?y) = state ?y"
      using run_within_phase [OF y(1), of "n - 2"] 3 by simp
    ultimately show ?thesis using 3 y(2) by simp
  next
    case 4
    then have "(updateTrafficLight ^^ n) sg = (updateTrafficLight ^^ (n - 503)) ?g"
      using run_from [of 503 n updateTrafficLight sg]
        run_from [of 2 503 updateTrafficLight sg] by simp
    moreover have "state ((updateTrafficLight ^^ (n - 503)) ?g) = state ?g"
      using run_within_phase [OF g(1), of "n - 503"] 4 by simp
    ultimately show ?thesis using 4 g(2) by simp
  next
    case 5
    then have "(updateTrafficLight ^^ n) sg = (updateTrafficLight ^^ (n - 1004)) ?r"
      using run_from [of 1004 n updateTrafficLight sg]
        run_from [of 503 1004 updateTrafficLight sg]
        run_from [of 2 503 updateTrafficLight sg] by simp
    moreover have "state ((updateTrafficLight ^^ (n - 1004)) ?r) = state ?r"
      using run_within_phase [OF r(1), of "n - 1004"] 5 n by simp
    ultimately show ?thesis using 5 r(2) by simp
  qed
qed

text \<open>
  C2. Each update of a signal adds the double of 0.01 to its timer and stores the rounded
  sum; when the stored timer is strictly greater than 5 the state becomes
  \<open>(state + 1) mod 3\<close> and the timer 0, otherwise the state is kept. A signal at RED (0)
  whose timer is the double of 4.99 is still RED after one update, with timer exactly 5;
  the second update makes it YELLOW (1) with timer 0. Over the first 1504 updates its
  state is RED before the 2nd, YELLOW from the 2nd, GREEN (2) from the 503rd and RED
  again from the 1004th: the third change of state brings it back to RED. From timer 0,
  three full phases (1503 updates) return any state below 3 to itself.
\<close>

theorem traffic_cycle:
  "timer (updateTrafficLight sg) =
     (if jgt (jadd (timer sg) (Num (fl (1 / 100)))) (Num 5) then Num 0
      else jadd (timer sg) (Num (fl (1 / 100)))) \<and>
   state (updateTrafficLight sg) =
     (if jgt (jadd (timer sg) (Num (fl (1 / 100)))) (Num 5) then (state sg + 1) mod 3
      else state sg) \<and>
   updateTrafficLights sgs time = map updateTrafficLight sgs \<and>
   fl (1 / 100) = 5764607523034235 / 576460752303423488 \<and>
   fl (499 / 100) = 2809120267572347 / 562949953421312 \<and>
   (state sg = 0 \<and> timer sg = Num (fl (499 / 100)) \<longrightarrow>
      state (updateTrafficLight sg) = 0 \<and> timer (updateTrafficLight sg) = Num 5 \<and>
      state (updateTrafficLight (updateTrafficLight sg)) = 1 \<and>
      timer (updateTrafficLight (updateTrafficLight sg)) = Num 0 \<and>
      (\<forall>n \<le> 1504. state ((updateTrafficLight ^^ n) sg) =
         (if n < 2 then 0 else if n < 503 then 1 else if n < 1004 then 2 else 0))) \<and>
   (state sg < 3 \<and> timer sg = Num 0 \<longrightarrow>
      state ((updateTrafficLight ^^ 501) sg) = (state sg + 1) mod 3 \<and>
      state ((updateTrafficLight ^^ 1002) sg) = (state sg + 2) mod 3 \<and>
      state ((updateTrafficLight ^^ 1503) sg) = state sg)"
proof -
  have "state ((updateTrafficLight ^^ 1002) sg) = (state sg + 2) mod 3" if "timer sg = Num 0"
  proof -
    have "timer ((updateTrafficLight ^^ 501) sg) = Num 0"
      using run_phase(1) [OF that] .
    then have "state ((updateTrafficLight ^^ 501) ((updateTrafficLight ^^ 501) sg)) =
        ((state sg + 1) mod 3 + 1) mod 3"
      using run_phase(2) [of "(updateTrafficLight ^^ 501) sg"] run_phase(2) [OF that]
      by simp
    moreover have "(updateTrafficLight ^^ 1002) sg =
        (updateTrafficLight ^^ 501) ((updateTrafficLight ^^ 501) sg)"
      using run_from [of 501 1002 updateTrafficLight sg] by simp
    ultimately show ?thesis
      by (simp add: mod_simps)
  qed
  then have "state sg < 3 \<and> timer sg = Num 0 \<longrightarrow>
      state ((updateTrafficLight ^^ 501) sg) = (state sg + 1) mod 3 \<and>
      state ((updateTrafficLight ^^ 1002) sg) = (state sg + 2) mod 3 \<and>
      state ((updateTrafficLight ^^ 1503) sg) = state sg"
    using run_phase(2) [of sg] run_three_phases [of sg] by simp
  moreover have "state sg = 0 \<and> timer sg = Num (fl (499 / 100)) \<longrightarrow>
      state (updateTrafficLight sg) = 0 \<and> timer (updateTrafficLight sg) = Num 5 \<and>
      state (updateTrafficLight (updateTrafficLight sg)) = 1 \<and>
      timer (updateTrafficLight (updateTrafficLight sg)) = Num 0 \<and>
      (\<forall>n \<le> 1504. state ((updateTrafficLight ^^ n) sg) =
         (if n < 2 then 0 else if n < 503 then 1 else if n < 1004 then 2 else 0))"
    using run_from_red [of sg] by blast
  moreover have "updateTrafficLights sgs time = map updateTrafficLight sgs"
    by (simp add: updateTrafficLights_def)
  ultimately show ?thesis
    using updateTrafficLight_timer [of sg] updateTrafficLight_state [of sg]
      fl_hundredth fl_499 by blast
qed

theorem traffic_cycle_witness:
  "state (\<lparr>lights = \<lparr>red = 1, yellow = 0, green = 0\<rparr>, state = 0, timer = Num (fl (499 / 100))\<rparr>) = 0 \<and> timer (\<lparr>lights = \<lparr>red = 1, yellow = 0, green = 0\<rparr>, state = 0, timer = Num (fl (499 / 100))\<rparr>) = Num (fl (499 / 100)) \<and>
   state (updateTrafficLight (\<lparr>lights = \<lparr>red = 1, yellow = 0, green = 0\<rparr>, state = 0, timer = Num (fl (499 / 100))\<rparr>)) = 0 \<and>
   timer (updateTrafficLight (\<lparr>lights = \<lparr>red = 1, yellow = 0, green = 0\<rparr>, state = 0, timer = Num (fl (499 / 100))\<rparr>)) = Num 5 \<and>
   state (updateTrafficLight (updateTrafficLight (\<lparr>lights = \<lparr>red = 1, yellow = 0, green = 0\<rparr>, state = 0, timer = Num (fl (499 / 100))\<rparr>))) = 1 \<and>
   timer (updateTrafficLight (updateTrafficLight (\<lparr>lights = \<lparr>red = 1, yellow = 0, green = 0\<rparr>, state = 0, timer = Num (fl (499 / 100))\<rparr>))) = Num 0 \<and>
   (502::nat) \<le> 1504 \<and> state ((updateTrafficLight ^^ 502) (\<lparr>lights = \<lparr>red = 1, yellow = 0, green = 0\<rparr>, state = 0, timer = Num (fl (499 / 100))\<rparr>)) = 1 \<and>
   (503::nat) \<le> 1504 \<and> state ((updateTrafficLight ^^ 503) (\<lparr>lights = \<lparr>red = 1, yellow = 0, green = 0\<rparr>, state = 0, timer = Num (fl (499 / 100))\<rparr>)) = 2 \<and>
   (1004::nat) \<le> 1504 \<and> state ((updateTrafficLight ^^ 1004) (\<lparr>lights = \<lparr>red = 1, yellow = 0, green = 0\<rparr>, state = 0, timer = Num (fl (499 / 100))\<rparr>)) = 0 \<and>
   state ((\<lparr>lights = \<lparr>red = 1, yellow = 0, green = 0\<rparr>, state = 0, timer = Num (fl (499 / 100))\<rparr>)\<lparr>timer := Num 0\<rparr>) < 3 \<and> timer ((\<lparr>lights = \<lparr>red = 1, yellow = 0, green = 0\<rparr>, state = 0, timer = Num (fl (499 / 100))\<rparr>)\<lparr>timer := Num 0\<rparr>) = Num 0 \<and>
   state ((updateTrafficLight ^^ 1503) ((\<lparr>lights = \<lparr>red = 1, yellow = 0, green = 0\<rparr>, state = 0, timer = Num (fl (499 / 100))\<rparr>)\<lparr>timer := Num 0\<rparr>)) = state ((\<lparr>lights = \<lparr>red = 1, yellow = 0, green = 0\<rparr>, state = 0, timer = Num (fl (499 / 100))\<rparr>)\<lparr>timer := Num 0\<rparr>)"
proof -
  note r = traffic_cycle [of "\<lparr>lights = \<lparr>red = 1, yellow = 0, green = 0\<rparr>, state = 0, timer = Num (fl (499 / 100))\<rparr>"]
  note a = r [THEN conjunct2, THEN conjunct2, THEN conjunct2, THEN conjunct2, THEN conjunct2, THEN conjunct1]
  note q = traffic_cycle [of "(\<lparr>lights = \<lparr>red = 1, yellow = 0, green = 0\<rparr>, state = 0, timer = Num (fl (499 / 100))\<rparr>)\<lparr>timer := Num 0\<rparr>"]
  note b = q [THEN conjunct2, THEN conjunct2, THEN conjunct2, THEN conjunct2, THEN conjunct2, THEN conjunct2]
  have h: "state (\<lparr>lights = \<lparr>red = 1, yellow = 0, green = 0\<rparr>, state = 0, timer = Num (fl (499 / 100))\<rparr>) = 0 \<and> timer (\<lparr>lights = \<lparr>red = 1, yellow = 0, green = 0\<rparr>, state = 0, timer = Num (fl (499 / 100))\<rparr>) = Num (fl (499 / 100))"
    by simp
  note c = a [rule_format, OF h]
  note d = c [THEN conjunct2, THEN conjunct2, THEN conjunct2, THEN conjunct2, rule_format]
  have n: "(502::nat) \<le> 1504" "(503::nat) \<le> 1504" "(1004::nat) \<le> 1504"
    by simp_all
  have d1: "state ((updateTrafficLight ^^ 502) (\<lparr>lights = \<lparr>red = 1, yellow = 0, green = 0\<rparr>, state = 0, timer = Num (fl (499 / 100))\<rparr>)) = 1"
    using d [OF n(1)] by simp
  have d2: "state ((updateTrafficLight ^^ 503) (\<lparr>lights = \<lparr>red = 1, yellow = 0, green = 0\<rparr>, state = 0, timer = Num (fl (499 / 100))\<rparr>)) = 2"
    using d [OF n(2)] by simp
  have d3: "state ((updateTrafficLight ^^ 1004) (\<lparr>lights = \<lparr>red = 1, yellow = 0, green = 0\<rparr>, state = 0, timer = Num (fl (499 / 100))\<rparr>)) = 0"
    using d [OF n(3)] by simp
  have h2: "state ((\<lparr>lights = \<lparr>red = 1, yellow = 0, green = 0\<rparr>, state = 0, timer = Num (fl (499 / 100))\<rparr>)\<lparr>timer := Num 0\<rparr>) < 3 \<and> timer ((\<lparr>lights = \<lparr>red = 1, yellow = 0, green = 0\<rparr>, state = 0, timer = Num (fl (499 / 100))\<rparr>)\<lparr>timer := Num 0\<rparr>) = Num 0"
    by simp
  note e = b [rule_format, OF h2, THEN conjunct2, THEN conjunct2]
  show ?thesis
    by (intro conjI h [THEN conjunct1] h [THEN conjunct2] c [THEN conjunct1]
        c [THEN conjunct2, THEN conjunct1] c [THEN conjunct2, THEN conjunct2, THEN conjunct1]
        c [THEN conjunct2, THEN conjunct2, THEN conjunct2, THEN conjunct1] n d1 d2 d3
        h2 [THEN conjunct1] h2 [THEN conjunct2] e)
qed

lemma updateLightColors_idem:
  "updateLightColors (updateLightColors sg) = updateLightColors sg"
  by (simp add: updateLightColors_def Let_def)

lemma updateLightColors_frame:
  "state (updateLightColors sg) = state sg" "timer (updateLightColors sg) = timer sg"
  by (simp_all add: updateLightColors_def Let_def)

lemma updateLightColors_lights:
  "lights (updateLightColors sg) =
     \<lparr>red = (if state sg = 0 then 1 else 0), yellow = (if state sg = 1 then 1 else 0),
      green = (if state sg = 2 then 1 else 0)\<rparr>"
  by (simp add: updateLightColors_def Let_def)

lemma updateTrafficLight_lights:
  "lights (updateTrafficLight sg) =
     \<lparr>red = (if state (updateTrafficLight sg) = 0 then 1 else 0),
      yellow = (if state (updateTrafficLight sg) = 1 then 1 else 0),
      green = (if state (updateTrafficLight sg) = 2 then 1 else 0)\<rparr>"
  by (simp add: updateTrafficLight_def updateLightColors_lights updateLightColors_frame)

lemma updateTrafficLight_state_bound:
  "state sg < 3 \<Longrightarrow> state (updateTrafficLight sg) < 3"
  by (simp add: updateTrafficLight_state)

text \<open>
  C6. After an update of a signal whose state is 0, 1 or 2, exactly one of the three
  emissive intensities is nonzero, and it is the one of the current state: red for 0,
  yellow for 1, green for 2; the other two are 0. This holds for every signal of the list
  that \<open>updateTrafficLights\<close> returns. The light-setting step leaves state and timer as
  they are, and applying it a second time changes nothing.
\<close>

theorem lights_match_state:
  "updateLightColors (updateLightColors sg) = updateLightColors sg \<and>
   state (updateLightColors sg) = state sg \<and> timer (updateLightColors sg) = timer sg \<and>
   (state sg < 3 \<longrightarrow>
      state (updateTrafficLight sg) < 3 \<and>
      length (filter (\<lambda>v. v \<noteq> 0)
        [red (lights (updateTrafficLight sg)), yellow (lights (updateTrafficLight sg)),
         green (lights (updateTrafficLight sg))]) = 1 \<and>
      (red (lights (updateTrafficLight sg)) \<noteq> 0) = (state (updateTrafficLight sg) = 0) \<and>
      (yellow (lights (updateTrafficLight sg)) \<noteq> 0) = (state (updateTrafficLight sg) = 1) \<and>
      (green (lights (updateTrafficLight sg)) \<noteq> 0) = (state (updateTrafficLight sg) = 2)) \<and>
   ((\<forall>s \<in> set sgs. state s < 3) \<longrightarrow>
      (\<forall>s' \<in> set (updateTrafficLights sgs time).
         state s' < 3 \<and>
         length (filter (\<lambda>v. v \<noteq> 0) [red (lights s'), yellow (lights s'), green (lights s')]) = 1 \<and>
         (red (lights s') \<noteq> 0) = (state s' = 0) \<and>
         (yellow (lights s') \<noteq> 0) = (state s' = 1) \<and>
         (green (lights s') \<noteq> 0) = (state s' = 2)))"
proof -
  have one: "state (updateTrafficLight s) < 3 \<and>
      length (filter (\<lambda>v. v \<noteq> 0)
        [red (lights (updateTrafficLight s)), yellow (lights (updateTrafficLight s)),
         green (lights (updateTrafficLight s))]) = 1 \<and>
      (red (lights (updateTrafficLight s)) \<noteq> 0) = (state (updateTrafficLight s) = 0) \<and>
      (yellow (lights (updateTrafficLight s)) \<noteq> 0) = (state (updateTrafficLight s) = 1) \<and>
      (green (lights (updateTrafficLight s)) \<noteq> 0) = (state (updateTrafficLight s) = 2)"
    if "state s < 3" for s
  proof -
    from that have "state (updateTrafficLight s) < 3"
      by (rule updateTrafficLight_state_bound)
    then consider "state (updateTrafficLight s) = 0" | "state (updateTrafficLight s) = 1"
      | "state (updateTrafficLight s) = 2"
      by linarith
    then show ?thesis
      by cases (simp_all add: updateTrafficLight_lights [of s])
  qed
  have "(\<forall>s \<in> set sgs. state s < 3) \<longrightarrow>
      (\<forall>s' \<in> set (updateTrafficLights sgs time).
         state s' < 3 \<and>
         length (filter (\<lambda>v. v \<noteq> 0) [red (lights s'), yellow (lights s'), green (lights s')]) = 1 \<and>
         (red (lights s') \<noteq> 0) = (state s' = 0) \<and>
         (yellow (lights s') \<noteq> 0) = (state s' = 1) \<and>
         (green (lights s') \<noteq> 0) = (state s' = 2))"
  proof (intro impI ballI)
    fix s'
    assume ok: "\<forall>s \<in> set sgs. state s < 3"
      and "s' \<in> set (updateTrafficLights sgs time)"
    then obtain s where s: "s \<in> set sgs" "s' = updateTrafficLight s"
      by (auto simp: updateTrafficLights_def)
    from ok s(1) have "state s < 3"
      by blast
    then show "state s' < 3 \<and>
         length (filter (\<lambda>v. v \<noteq> 0) [red (lights s'), yellow (lights s'), green (lights s')]) = 1 \<and>
         (red (lights s') \<noteq> 0) = (state s' = 0) \<and>
         (yellow (lights s') \<noteq> 0) = (state s' = 1) \<and>
         (green (lights s') \<noteq> 0) = (state s' = 2)"
      unfolding s(2) by (rule one)
  qed
  then show ?thesis
    using one [of sg] updateLightColors_idem [of sg] updateLightColors_frame [of sg]
    by blast
qed

theorem lights_match_state_witness:
  "state (\<lparr>lights = \<lparr>red = 0, yellow = 0, green = 1\<rparr>, state = 2, timer = Num 5\<rparr>) < 3 \<and>
   state (updateTrafficLight (\<lparr>lights = \<lparr>red = 0, yellow = 0, green = 1\<rparr>, state = 2, timer = Num 5\<rparr>)) = 0 \<and>
   red (lights (updateTrafficLight (\<lparr>lights = \<lparr>red = 0, yellow = 0, green = 1\<rparr>, state = 2, timer = Num 5\<rparr>))) \<noteq> 0 \<and>
   yellow (lights (updateTrafficLight (\<lparr>lights = \<lparr>red = 0, yellow = 0, green = 1\<rparr>, state = 2, timer = Num 5\<rparr>))) = 0 \<and>
   green (lights (updateTrafficLight (\<lparr>lights = \<lparr>red = 0, yellow = 0, green = 1\<rparr>, state = 2, timer = Num 5\<rparr>))) = 0 \<and>
   length (filter (\<lambda>v. v \<noteq> 0)
     [red (lights (updateTrafficLight (\<lparr>lights = \<lparr>red = 0, yellow = 0, green = 1\<rparr>, state = 2, timer = Num 5\<rparr>))), yellow (lights (updateTrafficLight (\<lparr>lights = \<lparr>red = 0, yellow = 0, green = 1\<rparr>, state = 2, timer = Num 5\<rparr>))),
      green (lights (updateTrafficLight (\<lparr>lights = \<lparr>red = 0, yellow = 0, green = 1\<rparr>, state = 2, timer = Num 5\<rparr>)))]) = 1 \<and>
   updateTrafficLights [(\<lparr>lights = \<lparr>red = 0, yellow = 0, green = 1\<rparr>, state = 2, timer = Num 5\<rparr>)] 7 = [\<lparr>lights = \<lparr>red = 1, yellow = 0, green = 0\<rparr>, state = 0, timer = Num 0\<rparr>]"
proof -
  have h: "state (\<lparr>lights = \<lparr>red = 0, yellow = 0, green = 1\<rparr>, state = 2, timer = Num 5\<rparr>) < 3"
    by simp
  have s: "state (updateTrafficLight (\<lparr>lights = \<lparr>red = 0, yellow = 0, green = 1\<rparr>, state = 2, timer = Num 5\<rparr>)) = 0"
    by (simp add: updateTrafficLight_state timer_5_step del: jadd.simps)
  note r = lights_match_state [of "\<lparr>lights = \<lparr>red = 0, yellow = 0, green = 1\<rparr>, state = 2, timer = Num 5\<rparr>", THEN conjunct2, THEN conjunct2, THEN conjunct2,
      THEN conjunct1, rule_format, OF h]
  have "updateTrafficLights [(\<lparr>lights = \<lparr>red = 0, yellow = 0, green = 1\<rparr>, state = 2, timer = Num 5\<rparr>)] 7 =
      [\<lparr>lights = \<lparr>red = 1, yellow = 0, green = 0\<rparr>, state = 0, timer = Num 0\<rparr>]"
    by (simp add: updateTrafficLights_def updateTrafficLight_def updateTimer_def
        updateLightColors_def Let_def timer_5_step del: jadd.simps)
  then show ?thesis
    using r s by simp
qed

text \<open>
  C10. \<open>updateTrafficLights\<close> does not read its \<open>time\<close> argument: on the same list of
  signals, any two values of \<open>time\<close> give the same list, states, timers and light
  intensities included, and each signal of the result is \<open>updateTrafficLight\<close> of the
  signal at the same place of the input, a function of that signal alone.
\<close>

theorem time_unused:
  "updateTrafficLights sgs time1 = updateTrafficLights sgs time2 \<and>
   updateTrafficLights sgs time1 = map updateTrafficLight sgs"
  by (simp add: updateTrafficLights_def)

section \<open>Day and night: properties\<close>

lemma sunAngle_quarter: "sunAngle (1/4) = 0"
  by (simp add: sunAngle_def)

lemma sunHeight_quarter: "sunHeight (1/4) = 50"
  by (simp add: sunHeight_def sunAngle_def)

lemma sunAngle_half: "sunAngle (1/2) = pi / 2"
  by (simp add: sunAngle_def)

lemma sunHeight_half: "sunHeight (1/2) = 100"
  by (simp add: sunHeight_def sunAngle_def)

lemma sunAngle_sixth: "sunAngle (1/6) = - (pi / 6)"
  by (simp add: sunAngle_def)

lemma sunHeight_sixth: "sunHeight (1/6) = 25"
  by (simp add: sunHeight_def sunAngle_sixth sin_30)

lemma lerpColors_0: "lerpColors c1 c2 0 = c1"
  by (simp add: lerpColors_def)

lemma lerpColors_1: "lerpColors c1 c2 1 = c2"
  by (simp add: lerpColors_def)

lemma skyColor_25: "skyColor 25 = skyColors_sunset"
  by (simp add: skyColor_def lerpColors_1)

lemma skyColor_100: "skyColor 100 = skyColors_day"
  by (simp add: skyColor_def)

lemma skyColor_50: "skyColor 50 = lerpColors skyColors_sunset skyColors_day (5/11)"
  by (simp add: skyColor_def)

lemma skyColor_50_not_day: "skyColor 50 \<noteq> skyColors_day"
  by (simp add: skyColor_def lerpColors_def skyColors_day_def skyColors_sunset_def Color_def)

lemma setBulb_frame:
  "hierarchy (setBulb bulb v s) = hierarchy s"
  "object_class (setBulb bulb v s) = object_class s"
  "position (setBulb bulb v s) = position s"
  "intensity (setBulb bulb v s) = intensity s"
  "material (setBulb bulb v s) = material s"
  "userData_light (setBulb bulb v s) = userData_light s"
  "userData_bulb (setBulb bulb v s) = userData_bulb s"
  "isMeshStandardMaterial (setBulb bulb v s) = isMeshStandardMaterial s"
  "emissive (setBulb bulb v s) = emissive s"
  "background (setBulb bulb v s) = background s"
  by (simp_all add: setBulb_def split: option.splits)

text \<open>The material whose emissive intensity \<open>setBulb\<close> writes, if any.\<close>

lemma setBulb_emissiveIntensity:
  "emissiveIntensity (setBulb bulb v s) m =
     (if \<exists>b. bulb = Some b \<and> material s b = Some m \<and> isMeshStandardMaterial s m then v
      else emissiveIntensity s m)"
  by (auto simp: setBulb_def split: option.splits)

lemma streetLightCallback_frame:
  "hierarchy (streetLightCallback h s object) = hierarchy s"
  "object_class (streetLightCallback h s object) = object_class s"
  "position (streetLightCallback h s object) = position s"
  "material (streetLightCallback h s object) = material s"
  "userData_light (streetLightCallback h s object) = userData_light s"
  "userData_bulb (streetLightCallback h s object) = userData_bulb s"
  "isMeshStandardMaterial (streetLightCallback h s object) = isMeshStandardMaterial s"
  "emissive (streetLightCallback h s object) = emissive s"
  "background (streetLightCallback h s object) = background s"
  by (simp_all add: streetLightCallback_def Let_def setBulb_frame split: option.splits)

lemma streetLightCallback_intensity:
  "intensity (streetLightCallback h s object) r =
     (if userData_light s object = Some r then (if h < 30 then max 0 (1 - h / 30) else 0)
      else intensity s r)"
  by (simp add: streetLightCallback_def Let_def setBulb_frame split: option.splits)

lemma streetLightCallback_emissiveIntensity:
  "emissiveIntensity (streetLightCallback h s object) m =
     (if userData_light s object \<noteq> None \<and>
         (\<exists>b. userData_bulb s object = Some b \<and> material s b = Some m \<and>
              isMeshStandardMaterial s m)
      then (if h < 30 then max 0 (1 - h / 30) else 0)
      else emissiveIntensity s m)"
  by (auto simp: streetLightCallback_def Let_def setBulb_emissiveIntensity split: option.splits)

lemma headlightCallback_frame:
  "hierarchy (headlightCallback h s child) = hierarchy s"
  "object_class (headlightCallback h s child) = object_class s"
  "position (headlightCallback h s child) = position s"
  "intensity (headlightCallback h s child) = intensity s"
  "material (headlightCallback h s child) = material s"
  "userData_light (headlightCallback h s child) = userData_light s"
  "userData_bulb (headlightCallback h s child) = userData_bulb s"
  "isMeshStandardMaterial (headlightCallback h s child) = isMeshStandardMaterial s"
  "emissive (headlightCallback h s child) = emissive s"
  "background (headlightCallback h s child) = background s"
  by (simp_all add: headlightCallback_def split: option.splits)

lemma headlightCallback_other:
  "emissive s m \<noteq> Some (Color 0xffffdd) \<Longrightarrow>
     emissiveIntensity (headlightCallback h s child) m = emissiveIntensity s m"
  by (auto simp: headlightCallback_def split: option.splits)


lemma streetLights_fold_frame:
  fixes ns :: "node list"
  defines "run \<equiv> \<lambda>h s ns. foldl (\<lambda>s n. streetLightCallback h s (node_ref n)) s ns"
  shows "hierarchy (run h s ns) = hierarchy s \<and>
    object_class (run h s ns) = object_class s \<and>
    position (run h s ns) = position s \<and>
    material (run h s ns) = material s \<and>
    userData_light (run h s ns) = userData_light s \<and>
    userData_bulb (run h s ns) = userData_bulb s \<and>
    isMeshStandardMaterial (run h s ns) = isMeshStandardMaterial s \<and>
    emissive (run h s ns) = emissive s \<and>
    background (run h s ns) = background s"
  unfolding run_def
  by (induction ns arbitrary: s) (simp_all add: streetLightCallback_frame)

lemma streetLights_fold_intensity:
  "intensity (foldl (\<lambda>s n. streetLightCallback h s (node_ref n)) s ns) r =
     (if \<exists>n \<in> set ns. userData_light s (node_ref n) = Some r
      then (if h < 30 then max 0 (1 - h / 30) else 0)
      else intensity s r)"
  by (induction ns arbitrary: s)
    (auto simp: streetLightCallback_frame streetLightCallback_intensity)

lemma streetLights_fold_emissiveIntensity:
  "emissiveIntensity (foldl (\<lambda>s n. streetLightCallback h s (node_ref n)) s ns) m =
     (if \<exists>n \<in> set ns. userData_light s (node_ref n) \<noteq> None \<and>
          (\<exists>b. userData_bulb s (node_ref n) = Some b \<and> material s b = Some m \<and>
               isMeshStandardMaterial s m)
      then (if h < 30 then max 0 (1 - h / 30) else 0)
      else emissiveIntensity s m)"
  by (induction ns arbitrary: s)
    (auto simp: streetLightCallback_frame streetLightCallback_emissiveIntensity)

lemma headlights_fold_frame:
  fixes cs :: "node list"
  defines "run \<equiv> \<lambda>h s cs. foldl (\<lambda>s child. headlightCallback h s (node_ref child)) s cs"
  shows "hierarchy (run h s cs) = hierarchy s \<and>
    object_class (run h s cs) = object_class s \<and>
    position (run h s cs) = position s \<and>
    intensity (run h s cs) = intensity s \<and>
    material (run h s cs) = material s \<and>
    userData_light (run h s cs) = userData_light s \<and>
    userData_bulb (run h s cs) = userData_bulb s \<and>
    isMeshStandardMaterial (run h s cs) = isMeshStandardMaterial s \<and>
    emissive (run h s cs) = emissive s \<and>
    background (run h s cs) = background s"
  unfolding run_def
  by (induction cs arbitrary: s) (simp_all add: headlightCallback_frame)

lemma headlights_fold_other:
  "emissive s m \<noteq> Some (Color 0xffffdd) \<Longrightarrow>
     emissiveIntensity (foldl (\<lambda>s child. headlightCallback h s (node_ref child)) s cs) m =
       emissiveIntensity s m"
  by (induction cs arbitrary: s) (simp_all add: headlightCallback_frame headlightCallback_other)


lemma headlights_groups_frame:
  fixes ns :: "node list"
  defines "run \<equiv> \<lambda>h s ns. foldl (\<lambda>s object.
         if object_class s (node_ref object) = GroupObject
         then foldl (\<lambda>s child. headlightCallback h s (node_ref child)) s (traverse object)
         else s) s ns"
  shows "hierarchy (run h s ns) = hierarchy s \<and>
    object_class (run h s ns) = object_class s \<and>
    position (run h s ns) = position s \<and>
    intensity (run h s ns) = intensity s \<and>
    material (run h s ns) = material s \<and>
    userData_light (run h s ns) = userData_light s \<and>
    userData_bulb (run h s ns) = userData_bulb s \<and>
    isMeshStandardMaterial (run h s ns) = isMeshStandardMaterial s \<and>
    emissive (run h s ns) = emissive s \<and>
    background (run h s ns) = background s"
  unfolding run_def
  by (induction ns arbitrary: s) (simp_all add: headlights_fold_frame)

lemma headlights_groups_other:
  "emissive s m \<noteq> Some (Color 0xffffdd) \<Longrightarrow>
     emissiveIntensity (foldl (\<lambda>s object.
         if object_class s (node_ref object) = GroupObject
         then foldl (\<lambda>s child. headlightCallback h s (node_ref child)) s (traverse object)
         else s) s ns) m = emissiveIntensity s m"
  by (induction ns arbitrary: s) (simp_all add: headlights_fold_frame headlights_fold_other)

lemma updateStreetLights_frame:
  "hierarchy (updateStreetLights h s) = hierarchy s"
  "object_class (updateStreetLights h s) = object_class s"
  "position (updateStreetLights h s) = position s"
  "material (updateStreetLights h s) = material s"
  "userData_light (updateStreetLights h s) = userData_light s"
  "userData_bulb (updateStreetLights h s) = userData_bulb s"
  "isMeshStandardMaterial (updateStreetLights h s) = isMeshStandardMaterial s"
  "emissive (updateStreetLights h s) = emissive s"
  "background (updateStreetLights h s) = background s"
  unfolding updateStreetLights_def by (simp_all add: streetLights_fold_frame)

lemma updateHeadlights_frame:
  "hierarchy (updateHeadlights h s) = hierarchy s"
  "object_class (updateHeadlights h s) = object_class s"
  "position (updateHeadlights h s) = position s"
  "intensity (updateHeadlights h s) = intensity s"
  "material (updateHeadlights h s) = material s"
  "userData_light (updateHeadlights h s) = userData_light s"
  "userData_bulb (updateHeadlights h s) = userData_bulb s"
  "isMeshStandardMaterial (updateHeadlights h s) = isMeshStandardMaterial s"
  "emissive (updateHeadlights h s) = emissive s"
  "background (updateHeadlights h s) = background s"
  unfolding updateHeadlights_def by (simp_all add: headlights_groups_frame)

lemma updateHeadlights_other:
  "emissive s m \<noteq> Some (Color 0xffffdd) \<Longrightarrow>
     emissiveIntensity (updateHeadlights h s) m = emissiveIntensity s m"
  unfolding updateHeadlights_def by (rule headlights_groups_other)

lemma updateStreetLights_intensity:
  "intensity (updateStreetLights h s) r =
     (if \<exists>n \<in> set (traverse (hierarchy s)). userData_light s (node_ref n) = Some r
      then (if h < 30 then max 0 (1 - h / 30) else 0)
      else intensity s r)"
  unfolding updateStreetLights_def by (rule streetLights_fold_intensity)

lemma updateStreetLights_emissiveIntensity:
  "emissiveIntensity (updateStreetLights h s) m =
     (if \<exists>n \<in> set (traverse (hierarchy s)). userData_light s (node_ref n) \<noteq> None \<and>
          (\<exists>b. userData_bulb s (node_ref n) = Some b \<and> material s b = Some m \<and>
               isMeshStandardMaterial s m)
      then (if h < 30 then max 0 (1 - h / 30) else 0)
      else emissiveIntensity s m)"
  unfolding updateStreetLights_def by (rule streetLights_fold_emissiveIntensity)

lemma updateDayNightCycle_position:
  "position (updateDayNightCycle dayProgress sunLight ambientLight s) =
     (position s)(sunLight := (cos (sunAngle dayProgress) * 100, sunHeight dayProgress,
        sin (sunAngle dayProgress) * 100))"
  by (simp add: updateDayNightCycle_def Let_def updateHeadlights_frame updateStreetLights_frame)

lemma updateDayNightCycle_background:
  "background (updateDayNightCycle dayProgress sunLight ambientLight s) =
     skyColor (sunHeight dayProgress)"
  by (simp add: updateDayNightCycle_def Let_def updateHeadlights_frame updateStreetLights_frame)

lemma updateDayNightCycle_frame:
  "hierarchy (updateDayNightCycle dayProgress sunLight ambientLight s) = hierarchy s"
  "object_class (updateDayNightCycle dayProgress sunLight ambientLight s) = object_class s"
  "material (updateDayNightCycle dayProgress sunLight ambientLight s) = material s"
  "userData_light (updateDayNightCycle dayProgress sunLight ambientLight s) = userData_light s"
  "userData_bulb (updateDayNightCycle dayProgress sunLight ambientLight s) = userData_bulb s"
  "isMeshStandardMaterial (updateDayNightCycle dayProgress sunLight ambientLight s) =
     isMeshStandardMaterial s"
  "emissive (updateDayNightCycle dayProgress sunLight ambientLight s) = emissive s"
  by (simp_all add: updateDayNightCycle_def Let_def updateHeadlights_frame
      updateStreetLights_frame)

lemma updateDayNightCycle_lamp_intensity:
  assumes "n \<in> set (traverse (hierarchy s))" and "userData_light s (node_ref n) = Some light"
  shows "intensity (updateDayNightCycle dayProgress sunLight ambientLight s) light =
     (if sunHeight dayProgress < 30 then max 0 (1 - sunHeight dayProgress / 30) else 0)"
proof -
  have "\<exists>n \<in> set (traverse (hierarchy s)). userData_light s (node_ref n) = Some light"
    using assms by blast
  then show ?thesis
    by (simp add: updateDayNightCycle_def Let_def updateHeadlights_frame
        updateStreetLights_intensity)
qed

lemma updateDayNightCycle_lamp_emissiveIntensity:
  assumes "n \<in> set (traverse (hierarchy s))" and "userData_light s (node_ref n) = Some light"
    and "userData_bulb s (node_ref n) = Some bulb" and "material s bulb = Some m"
    and "isMeshStandardMaterial s m" and "emissive s m \<noteq> Some (Color 0xffffdd)"
  shows "emissiveIntensity (updateDayNightCycle dayProgress sunLight ambientLight s) m =
     (if sunHeight dayProgress < 30 then max 0 (1 - sunHeight dayProgress / 30) else 0)"
proof -
  have "\<exists>n \<in> set (traverse (hierarchy s)). userData_light s (node_ref n) \<noteq> None \<and>
          (\<exists>b. userData_bulb s (node_ref n) = Some b \<and> material s b = Some m \<and>
               isMeshStandardMaterial s m)"
    using assms(1-5) by force
  then show ?thesis
    using assms(6)
    by (simp add: updateDayNightCycle_def Let_def updateHeadlights_other
        updateStreetLights_frame updateStreetLights_emissiveIntensity)
qed

lemma Color_lamp_not_headlight: "Color 0xffffee \<noteq> Color 0xffffdd"
  by (simp add: Color_def)

lemma lamp_value_mono:
  fixes h1 h2 :: real
  assumes "h1 \<le> h2"
  shows "(if h2 < 30 then max 0 (1 - h2 / 30) else 0) \<le> (if h1 < 30 then max 0 (1 - h1 / 30) else 0)"
  using assms by (auto simp: max_def)

text \<open>
  C3 (counterexample). At \<open>dayProgress = 0.25\<close> the sun angle is 0, but the sun height is
  not 100 and the background the function sets is not the day colour.
\<close>

theorem sky_quarter_not_day:
  "sunAngle (1/4) = 0 \<and> sunHeight (1/4) \<noteq> 100 \<and>
   background (updateDayNightCycle (1/4) 2 1 exampleScene) \<noteq> skyColors_day"
  by (simp add: sunAngle_quarter sunHeight_quarter updateDayNightCycle_background
      skyColor_50_not_day)

text \<open>
  C3 (amended). At \<open>dayProgress = 0.25\<close> the sun angle is 0 and the sun height is 50, so
  the sky colour is the blend from sunset to day at \<open>t = (50 - 25) / 55 = 5 / 11\<close>. The
  sun height is 100, and the sky colour the day colour itself, at \<open>dayProgress = 0.5\<close>,
  where the angle is \<open>\<pi> / 2\<close>.
\<close>

theorem sky_quarter_and_half:
  "sunAngle (1/4) = 1/4 * 2 * pi - pi / 2 \<and> sunAngle (1/4) = 0 \<and> sunHeight (1/4) = 50 \<and>
   background (updateDayNightCycle (1/4) sunLight ambientLight s) =
     lerpColors skyColors_sunset skyColors_day (5/11) \<and>
   sunAngle (1/2) = pi / 2 \<and> sunHeight (1/2) = 100 \<and>
   background (updateDayNightCycle (1/2) sunLight ambientLight s) = skyColors_day"
  by (simp add: sunAngle_quarter sunHeight_quarter sunAngle_half sunHeight_half
      updateDayNightCycle_background skyColor_50 skyColor_100)


lemma skyColor_upper_band:
  "25 < h \<Longrightarrow> h \<le> 80 \<Longrightarrow> skyColor h = lerpColors skyColors_sunset skyColors_day ((h - 25) / 55)"
  by (simp add: skyColor_def)

lemma skyColor_lower_band:
  "0 < h \<Longrightarrow> h \<le> 25 \<Longrightarrow> skyColor h = lerpColors skyColors_night skyColors_sunset (h / 25)"
  by (simp add: skyColor_def)

lemma sky_values:
  "col_r skyColors_day = 9 / 17" "col_g skyColors_day = 206 / 255" "col_b skyColors_day = 47 / 51"
  "col_r skyColors_sunset = 1" "col_g skyColors_sunset = 127 / 255" "col_b skyColors_sunset = 16 / 51"
  "col_r skyColors_night = 0" "col_g skyColors_night = 0" "col_b skyColors_night = 1 / 5"
  by (simp_all add: skyColors_day_def skyColors_sunset_def skyColors_night_def Color_def)

lemma skyColor_near_25:
  assumes "0 < h" and "h \<le> 80"
  shows "\<bar>col_r (skyColor h) - col_r skyColors_sunset\<bar> \<le> \<bar>h - 25\<bar> / 25"
    and "\<bar>col_g (skyColor h) - col_g skyColors_sunset\<bar> \<le> \<bar>h - 25\<bar> / 25"
    and "\<bar>col_b (skyColor h) - col_b skyColors_sunset\<bar> \<le> \<bar>h - 25\<bar> / 25"
proof -
  consider "h \<le> 25" | "25 < h"
    by linarith
  then have "\<bar>col_r (skyColor h) - col_r skyColors_sunset\<bar> \<le> \<bar>h - 25\<bar> / 25 \<and>
      \<bar>col_g (skyColor h) - col_g skyColors_sunset\<bar> \<le> \<bar>h - 25\<bar> / 25 \<and>
      \<bar>col_b (skyColor h) - col_b skyColors_sunset\<bar> \<le> \<bar>h - 25\<bar> / 25"
  proof cases
    case 1
    then show ?thesis
      using assms by (simp add: skyColor_lower_band lerpColors_def sky_values field_simps)
  next
    case 2
    then show ?thesis
      using assms by (simp add: skyColor_upper_band lerpColors_def sky_values field_simps)
  qed
  then show "\<bar>col_r (skyColor h) - col_r skyColors_sunset\<bar> \<le> \<bar>h - 25\<bar> / 25"
    and "\<bar>col_g (skyColor h) - col_g skyColors_sunset\<bar> \<le> \<bar>h - 25\<bar> / 25"
    and "\<bar>col_b (skyColor h) - col_b skyColors_sunset\<bar> \<le> \<bar>h - 25\<bar> / 25"
    by simp_all
qed


text \<open>
  C8. At sun height 25 the test \<open>h > 25\<close> fails and \<open>h > 0\<close> holds, so the sky colour is
  the blend from night to sunset at \<open>t = 25 / 25 = 1\<close>, which is the sunset colour; the
  blend from sunset to day at \<open>t = (25 - 25) / 55 = 0\<close> is the sunset colour too. The
  height 25 is reached at \<open>dayProgress = 1/6\<close>, where the function sets the background to
  the sunset colour. On both bands every channel of the sky colour is within
  \<open>\<bar>h - 25\<bar> / 25\<close> of the sunset colour, so the colour has no jump at 25.
\<close>

theorem sky_bands_meet:
  "skyColor 25 = lerpColors skyColors_night skyColors_sunset (25 / 25) \<and>
   skyColor 25 = skyColors_sunset \<and>
   lerpColors skyColors_sunset skyColors_day ((25 - 25) / 55) = skyColors_sunset \<and>
   sunHeight (1/6) = 25 \<and>
   background (updateDayNightCycle (1/6) sunLight ambientLight s) = skyColors_sunset \<and>
   (\<forall>h. 0 < h \<and> h \<le> 25 \<longrightarrow>
      skyColor h = lerpColors skyColors_night skyColors_sunset (h / 25)) \<and>
   (\<forall>h. 25 < h \<and> h \<le> 80 \<longrightarrow>
      skyColor h = lerpColors skyColors_sunset skyColors_day ((h - 25) / 55)) \<and>
   (\<forall>h. 0 < h \<and> h \<le> 80 \<longrightarrow>
      \<bar>col_r (skyColor h) - col_r skyColors_sunset\<bar> \<le> \<bar>h - 25\<bar> / 25 \<and>
      \<bar>col_g (skyColor h) - col_g skyColors_sunset\<bar> \<le> \<bar>h - 25\<bar> / 25 \<and>
      \<bar>col_b (skyColor h) - col_b skyColors_sunset\<bar> \<le> \<bar>h - 25\<bar> / 25)"
proof -
  have "skyColor 25 = lerpColors skyColors_night skyColors_sunset (25 / 25)"
    by (simp add: skyColor_def)
  moreover have "lerpColors skyColors_sunset skyColors_day ((25 - 25) / 55) = skyColors_sunset"
    by (simp add: lerpColors_0)
  moreover have "background (updateDayNightCycle (1/6) sunLight ambientLight s) = skyColors_sunset"
    by (simp add: updateDayNightCycle_background sunHeight_sixth skyColor_25)
  ultimately show ?thesis
    using skyColor_25 sunHeight_sixth skyColor_lower_band skyColor_upper_band skyColor_near_25
    by blast
qed

theorem sky_bands_meet_witness:
  "(0::real) < 20 \<and> (20::real) \<le> 25 \<and>
   skyColor 20 = lerpColors skyColors_night skyColors_sunset (20 / 25) \<and>
   (25::real) < 36 \<and> (36::real) \<le> 80 \<and>
   skyColor 36 = lerpColors skyColors_sunset skyColors_day ((36 - 25) / 55) \<and>
   \<bar>col_r (skyColor 36) - col_r skyColors_sunset\<bar> \<le> \<bar>36 - 25\<bar> / 25 \<and>
   \<bar>col_g (skyColor 20) - col_g skyColors_sunset\<bar> \<le> \<bar>20 - 25\<bar> / 25 \<and>
   skyColor 25 = skyColors_sunset \<and>
   background (updateDayNightCycle (1/6) 2 1 exampleScene) = skyColors_sunset"
proof -
  note r = sky_bands_meet [of 2 1 exampleScene]
  note lo = r [THEN conjunct2, THEN conjunct2, THEN conjunct2, THEN conjunct2, THEN conjunct2,
      THEN conjunct1, rule_format, of 20]
  note up = r [THEN conjunct2, THEN conjunct2, THEN conjunct2, THEN conjunct2, THEN conjunct2,
      THEN conjunct2, THEN conjunct1, rule_format, of 36]
  note near = r [THEN conjunct2, THEN conjunct2, THEN conjunct2, THEN conjunct2, THEN conjunct2,
      THEN conjunct2, THEN conjunct2, rule_format]
  have "skyColor 20 = lerpColors skyColors_night skyColors_sunset (20 / 25)"
    using lo by simp
  moreover have "skyColor 36 = lerpColors skyColors_sunset skyColors_day ((36 - 25) / 55)"
    using up by simp
  moreover have "\<bar>col_r (skyColor 36) - col_r skyColors_sunset\<bar> \<le> \<bar>36 - 25\<bar> / 25"
    using near [of 36] by simp
  moreover have "\<bar>col_g (skyColor 20) - col_g skyColors_sunset\<bar> \<le> \<bar>20 - 25\<bar> / 25"
    using near [of 20] by simp
  moreover have "skyColor 25 = skyColors_sunset"
    using r by blast
  moreover have "background (updateDayNightCycle (1/6) 2 1 exampleScene) = skyColors_sunset"
    using r by blast
  ultimately show ?thesis
    by simp
qed

text \<open>
  C7. Take a lamppost that the traversal reaches: an object whose \<open>userData\<close> holds a
  light and a bulb, the bulb having a standard material with the emissive colour
  \<open>0xffffee\<close> that \<open>createLamppost\<close> gives it. After \<open>updateDayNightCycle\<close>, with \<open>h\<close>
  the sun height, both the intensity of the light and the emissive intensity of the
  bulb's material are \<open>max 0 (1 - h / 30)\<close> when \<open>h < 30\<close> and 0 otherwise. The street-light
  pass gives them this value for any \<open>h\<close>; the value does not increase when \<open>h\<close> grows
  within \<open>[0, 30]\<close>, and it is 0 for every \<open>h \<ge> 30\<close>.
\<close>

theorem lamp_intensity:
  assumes "n \<in> set (traverse (hierarchy s))"
    and "userData_light s (node_ref n) = Some light"
    and "userData_bulb s (node_ref n) = Some bulb"
    and "material s bulb = Some m"
    and "isMeshStandardMaterial s m"
    and "emissive s m = Some (Color 0xffffee)"
  shows
    "intensity (updateDayNightCycle dayProgress sunLight ambientLight s) light =
       (if sunHeight dayProgress < 30 then max 0 (1 - sunHeight dayProgress / 30) else 0) \<and>
     emissiveIntensity (updateDayNightCycle dayProgress sunLight ambientLight s) m =
       (if sunHeight dayProgress < 30 then max 0 (1 - sunHeight dayProgress / 30) else 0) \<and>
     (\<forall>h. intensity (updateStreetLights h s) light = (if h < 30 then max 0 (1 - h / 30) else 0) \<and>
          emissiveIntensity (updateStreetLights h s) m =
            (if h < 30 then max 0 (1 - h / 30) else 0)) \<and>
     (\<forall>h1 h2. 0 \<le> h1 \<and> h1 \<le> h2 \<and> h2 \<le> 30 \<longrightarrow>
        intensity (updateStreetLights h2 s) light \<le> intensity (updateStreetLights h1 s) light \<and>
        emissiveIntensity (updateStreetLights h2 s) m \<le>
          emissiveIntensity (updateStreetLights h1 s) m) \<and>
     (\<forall>h. 30 \<le> h \<longrightarrow>
        intensity (updateStreetLights h s) light = 0 \<and>
        emissiveIntensity (updateStreetLights h s) m = 0) \<and>
     (\<forall>d1 d2. sunHeight d1 \<le> sunHeight d2 \<longrightarrow>
        intensity (updateDayNightCycle d2 sunLight ambientLight s) light \<le>
          intensity (updateDayNightCycle d1 sunLight ambientLight s) light \<and>
        emissiveIntensity (updateDayNightCycle d2 sunLight ambientLight s) m \<le>
          emissiveIntensity (updateDayNightCycle d1 sunLight ambientLight s) m)"
proof -
  have ne: "emissive s m \<noteq> Some (Color 0xffffdd)"
    using assms(6) Color_lamp_not_headlight by simp
  have full_i: "intensity (updateDayNightCycle d sunLight ambientLight s) light =
      (if sunHeight d < 30 then max 0 (1 - sunHeight d / 30) else 0)" for d
    using assms(1,2) by (rule updateDayNightCycle_lamp_intensity)
  have full_e: "emissiveIntensity (updateDayNightCycle d sunLight ambientLight s) m =
      (if sunHeight d < 30 then max 0 (1 - sunHeight d / 30) else 0)" for d
    using assms(1-5) ne by (rule updateDayNightCycle_lamp_emissiveIntensity)
  have "\<exists>n \<in> set (traverse (hierarchy s)). userData_light s (node_ref n) = Some light"
    using assms(1,2) by blast
  then have pass_i: "intensity (updateStreetLights h s) light =
      (if h < 30 then max 0 (1 - h / 30) else 0)" for h
    by (simp add: updateStreetLights_intensity)
  have "\<exists>n \<in> set (traverse (hierarchy s)). userData_light s (node_ref n) \<noteq> None \<and>
      (\<exists>b. userData_bulb s (node_ref n) = Some b \<and> material s b = Some m \<and>
           isMeshStandardMaterial s m)"
    using assms(1-5) by force
  then have pass_e: "emissiveIntensity (updateStreetLights h s) m =
      (if h < 30 then max 0 (1 - h / 30) else 0)" for h
    by (simp add: updateStreetLights_emissiveIntensity)
  have mono: "\<forall>h1 h2. 0 \<le> h1 \<and> h1 \<le> h2 \<and> h2 \<le> 30 \<longrightarrow>
        intensity (updateStreetLights h2 s) light \<le> intensity (updateStreetLights h1 s) light \<and>
        emissiveIntensity (updateStreetLights h2 s) m \<le>
          emissiveIntensity (updateStreetLights h1 s) m"
    unfolding pass_i pass_e using lamp_value_mono by blast
  have zero: "\<forall>h. 30 \<le> h \<longrightarrow>
        intensity (updateStreetLights h s) light = 0 \<and>
        emissiveIntensity (updateStreetLights h s) m = 0"
    unfolding pass_i pass_e by simp
  have mono_d: "\<forall>d1 d2. sunHeight d1 \<le> sunHeight d2 \<longrightarrow>
        intensity (updateDayNightCycle d2 sunLight ambientLight s) light \<le>
          intensity (updateDayNightCycle d1 sunLight ambientLight s) light \<and>
        emissiveIntensity (updateDayNightCycle d2 sunLight ambientLight s) m \<le>
          emissiveIntensity (updateDayNightCycle d1 sunLight ambientLight s) m"
    unfolding full_i full_e using lamp_value_mono by blast
  show ?thesis
    using full_i [of dayProgress] full_e [of dayProgress] pass_i pass_e mono zero mono_d
    by blast
qed

theorem lamp_intensity_witness:
  "(Node 3 [Node 4 [], Node 5 [], Node 6 [], Node 7 []]) \<in> set (traverse (hierarchy exampleScene)) \<and>
   userData_light exampleScene (node_ref (Node 3 [Node 4 [], Node 5 [], Node 6 [], Node 7 []])) = Some 7 \<and>
   userData_bulb exampleScene (node_ref (Node 3 [Node 4 [], Node 5 [], Node 6 [], Node 7 []])) = Some 6 \<and>
   material exampleScene 6 = Some 22 \<and>
   isMeshStandardMaterial exampleScene 22 \<and>
   emissive exampleScene 22 = Some (Color 0xffffee) \<and>
   sunHeight 0 = 0 \<and>
   intensity (updateDayNightCycle 0 2 1 exampleScene) 7 = 1 \<and>
   emissiveIntensity (updateDayNightCycle 0 2 1 exampleScene) 22 = 1 \<and>
   sunHeight (1/2) = 100 \<and>
   intensity (updateDayNightCycle (1/2) 2 1 exampleScene) 7 = 0 \<and>
   emissiveIntensity (updateDayNightCycle (1/2) 2 1 exampleScene) 22 = 0 \<and>
   (0::real) \<le> 10 \<and> (10::real) \<le> 20 \<and> (20::real) \<le> 30 \<and>
   intensity (updateStreetLights 10 exampleScene) 7 = 2 / 3 \<and>
   intensity (updateStreetLights 20 exampleScene) 7 = 1 / 3 \<and>
   intensity (updateStreetLights 20 exampleScene) 7 \<le> intensity (updateStreetLights 10 exampleScene) 7 \<and>
   (30::real) \<le> 30 \<and>
   emissiveIntensity (updateStreetLights 30 exampleScene) 22 = 0"
proof -
  have h1: "(Node 3 [Node 4 [], Node 5 [], Node 6 [], Node 7 []]) \<in> set (traverse (hierarchy exampleScene))"
    by (simp add: exampleScene_def)
  have h2: "userData_light exampleScene (node_ref (Node 3 [Node 4 [], Node 5 [], Node 6 [], Node 7 []])) = Some 7"
    and h3: "userData_bulb exampleScene (node_ref (Node 3 [Node 4 [], Node 5 [], Node 6 [], Node 7 []])) = Some 6"
    and h4: "material exampleScene 6 = Some 22"
    and h5: "isMeshStandardMaterial exampleScene 22"
    and h6: "emissive exampleScene 22 = Some (Color 0xffffee)"
    by (simp_all add: exampleScene_def)
  have s0: "sunHeight 0 = 0"
    by (simp add: sunHeight_def sunAngle_def)
  note r = lamp_intensity [OF h1 h2 h3 h4 h5 h6]
  have "intensity (updateDayNightCycle 0 2 1 exampleScene) 7 = 1"
    and "emissiveIntensity (updateDayNightCycle 0 2 1 exampleScene) 22 = 1"
    using r [of 0 2 1] s0 by simp_all
  moreover have "intensity (updateDayNightCycle (1/2) 2 1 exampleScene) 7 = 0"
    and "emissiveIntensity (updateDayNightCycle (1/2) 2 1 exampleScene) 22 = 0"
    using r [of "1/2" 2 1] sunHeight_half by simp_all
  moreover note p = r [of 0 2 1, THEN conjunct2, THEN conjunct2, THEN conjunct1, rule_format]
  moreover have "intensity (updateStreetLights 10 exampleScene) 7 = 2 / 3"
    and "intensity (updateStreetLights 20 exampleScene) 7 = 1 / 3"
    and "emissiveIntensity (updateStreetLights 30 exampleScene) 22 = 0"
    using p [of 10] p [of 20] p [of 30] by simp_all
  ultimately show ?thesis
    using h1 h2 h3 h4 h5 h6 s0 sunHeight_half by simp
qed

text \<open>
  C9 (counterexample). In the small scene the sun light is at \<open>(50, 100, 30)\<close>; the update
  at \<open>dayProgress = 0.25\<close> moves it to \<open>(100, 50, 0)\<close>.
\<close>

theorem sun_position_changes:
  "position exampleScene 2 = (50, 100, 30) \<and>
   position (updateDayNightCycle (1/4) 2 1 exampleScene) 2 = (100, 50, 0) \<and>
   position (updateDayNightCycle (1/4) 2 1 exampleScene) 2 \<noteq> position exampleScene 2"
proof -
  have "position exampleScene 2 = (50, 100, 30)"
    by (simp add: exampleScene_def)
  moreover have "position (updateDayNightCycle (1/4) 2 1 exampleScene) 2 = (100, 50, 0)"
    by (simp add: updateDayNightCycle_position sunAngle_quarter sunHeight_quarter)
  ultimately show ?thesis
    by simp
qed

text \<open>
  C9 (amended). One call of \<open>updateDayNightCycle\<close> writes one position, that of the sun
  light, which it sets to \<open>(cos a * 100, h, sin a * 100)\<close> for the sun angle \<open>a\<close> and the
  sun height \<open>h\<close>; the position of every other object of the scene (buildings, vehicles,
  pedestrians and street furniture among them) is unchanged. The parent-child structure,
  the classes, materials, \<open>userData\<close> references and emissive colours are unchanged as
  well: what changes besides is intensities, emissive intensities and the background.
\<close>

theorem positions_frame:
  "position (updateDayNightCycle dayProgress sunLight ambientLight s) sunLight =
     (cos (sunAngle dayProgress) * 100, sunHeight dayProgress, sin (sunAngle dayProgress) * 100) \<and>
   (\<forall>r. r \<noteq> sunLight \<longrightarrow>
      position (updateDayNightCycle dayProgress sunLight ambientLight s) r = position s r) \<and>
   hierarchy (updateDayNightCycle dayProgress sunLight ambientLight s) = hierarchy s \<and>
   object_class (updateDayNightCycle dayProgress sunLight ambientLight s) = object_class s \<and>
   material (updateDayNightCycle dayProgress sunLight ambientLight s) = material s \<and>
   userData_light (updateDayNightCycle dayProgress sunLight ambientLight s) = userData_light s \<and>
   userData_bulb (updateDayNightCycle dayProgress sunLight ambientLight s) = userData_bulb s \<and>
   isMeshStandardMaterial (updateDayNightCycle dayProgress sunLight ambientLight s) =
     isMeshStandardMaterial s \<and>
   emissive (updateDayNightCycle dayProgress sunLight ambientLight s) = emissive s"
  by (simp add: updateDayNightCycle_position updateDayNightCycle_frame)

theorem positions_frame_witness:
  "(8::nat) \<noteq> 2 \<and>
   position (updateDayNightCycle (1/4) 2 1 exampleScene) 8 = position exampleScene 8 \<and>
   position exampleScene 8 = (12, 0.6, - 37) \<and>
   (3::nat) \<noteq> 2 \<and>
   position (updateDayNightCycle (1/4) 2 1 exampleScene) 3 = (- 45, 0, - 30) \<and>
   position (updateDayNightCycle (1/4) 2 1 exampleScene) 2 = (100, 50, 0)"
proof -
  note r = positions_frame [of "1/4" 2 1 exampleScene]
  note f = r [THEN conjunct2, THEN conjunct1, rule_format]
  have "position (updateDayNightCycle (1/4) 2 1 exampleScene) 8 = position exampleScene 8"
    using f [of 8] by simp
  moreover have "position (updateDayNightCycle (1/4) 2 1 exampleScene) 3 = position exampleScene 3"
    using f [of 3] by simp
  moreover have "position exampleScene 8 = (12, 0.6, - 37)" "position exampleScene 3 = (- 45, 0, - 30)"
    by (simp_all add: exampleScene_def)
  moreover have "position (updateDayNightCycle (1/4) 2 1 exampleScene) 2 = (100, 50, 0)"
    using r sunAngle_quarter sunHeight_quarter by simp
  ultimately show ?thesis
    by simp
qed

end

